theory Spec2Isabelle
  imports Main
begin

section \<open>The preference controller (class ThemeFontToggle)\<close>

text \<open>
  The controller is a JavaScript class whose instances live on the page next to the DOM
  controls they are bound to, the root element whose attributes carry the applied
  preferences, and \<open>localStorage\<close>. Event listeners are closures that capture their
  instance, so instances are kept in a store indexed by address, and a listener is
  identified by the function object it is.
\<close>

subsection \<open>Data\<close>

datatype dimension = Theme | Font | FontSize

text \<open>
  The object \<open>{theme, font, fontSize}\<close> returned by \<open>getSettings\<close> and carried by events.
  A field is \<open>None\<close> while the property it is read from is still \<open>undefined\<close>.
\<close>

record settings =
  theme :: "string option"
  font :: "string option"
  fontSize :: "string option"

text \<open>\<open>this.config\<close>: the defaults of the constructor overridden by the caller's options.\<close>

record config =
  themeSelector :: string
  fontSelector :: string
  fontSizeSelector :: string
  storagePrefix :: string
  defaultTheme :: string
  defaultFont :: string
  defaultFontSize :: string
  autoDetectSystemTheme :: bool

text \<open>The \<open>options\<close> argument: every key may be left out.\<close>

record options =
  opt_themeSelector :: "string option"
  opt_fontSelector :: "string option"
  opt_fontSizeSelector :: "string option"
  opt_storagePrefix :: "string option"
  opt_defaultTheme :: "string option"
  opt_defaultFont :: "string option"
  opt_defaultFontSize :: "string option"
  opt_autoDetectSystemTheme :: "bool option"

text \<open>\<open>this.storageKeys\<close>, one key for each dimension.\<close>

record storageKeys =
  theme_key :: string
  font_key :: string
  fontSize_key :: string

text \<open>
  An instance. The three \<open>...El\<close> fields are \<open>this.themeSelector\<close>,
  \<open>this.fontSelector\<close> and \<open>this.fontSizeSelector\<close>: the element that
  \<open>document.querySelector\<close> found (its node number), or \<open>None\<close> for \<open>null\<close> and for
  \<open>undefined\<close>. The three current values are \<open>None\<close> while they are \<open>undefined\<close>, that
  is until \<open>setup\<close> or a setter assigns them.
\<close>

record controller =
  config :: config
  storageKeys :: storageKeys
  themeSelectorEl :: "nat option"
  fontSelectorEl :: "nat option"
  fontSizeSelectorEl :: "nat option"
  currentTheme :: "string option"
  currentFont :: "string option"
  currentFontSize :: "string option"

text \<open>
  Function objects that are passed to \<open>addEventListener\<close> and
  \<open>removeEventListener\<close>. The first four are the arrow functions created by
  \<open>setupEventListeners\<close> and \<open>setupSystemThemeListener\<close> of the instance at the given
  address; the last three are the methods \<open>this.setTheme\<close>, \<open>this.setFont\<close> and
  \<open>this.setFontSize\<close> themselves, which are other objects than the arrow functions
  that call them.
\<close>

datatype listener =
    ThemeChangeArrow nat
  | FontChangeArrow nat
  | FontSizeChangeArrow nat
  | SystemThemeArrow nat
  | Method_setTheme
  | Method_setFont
  | Method_setFontSize

text \<open>
  A control: what its \<open>value\<close> property reads, its \<open>change\<close> listeners in the order
  they were registered, and the values of its options when it is a \<open>select\<close> element
  (the control of the documentation); \<open>None\<close> stands for a control that keeps any
  string, such as a text input.
\<close>

record element =
  el_value :: string
  el_options :: "string list option"
  listeners :: "listener list"

text \<open>
  \<open>localStorage\<close>. Reading or writing may throw (storage disabled, quota exceeded); the
  two predicates say for which arguments it does.
\<close>

record storage =
  items :: "string \<rightharpoonup> string"
  getItem_throws :: "string \<Rightarrow> bool"
  setItem_throws :: "string \<Rightarrow> string \<Rightarrow> bool"

datatype exn = StorageError

text \<open>The calls the controller makes on its collaborators, in the order it makes them.\<close>

datatype call =
    SetItem string string
  | SetAttribute string string
  | DispatchEvent string settings

text \<open>
  The page: storage, the document (whether \<open>document.readyState\<close> is still
  \<open>'loading'\<close>, the instances whose \<open>setup\<close> waits for \<open>DOMContentLoaded\<close>, selector
  resolution, the controls, the attributes of \<open>document.documentElement\<close>), the media
  query list of \<open>(prefers-color-scheme: dark)\<close>, the instances and the log of calls.
\<close>

record world =
  localStorage :: storage
  loading :: bool
  pending_setups :: "nat list"
  querySelector :: "string \<Rightarrow> nat option"
  elements :: "nat \<Rightarrow> element"
  attributes :: "string \<rightharpoonup> string"
  matchMedia :: bool
  mediaListeners :: "listener list"
  instances :: "nat \<Rightarrow> controller"
  next_instance :: nat
  calls :: "call list"

subsection \<open>Storage and DOM primitives\<close>

definition getItem :: "storage \<Rightarrow> string \<Rightarrow> exn + string option" where
  "getItem st k = (if getItem_throws st k then Inl StorageError else Inr (items st k))"

definition setItem :: "storage \<Rightarrow> string \<Rightarrow> string \<Rightarrow> exn + storage" where
  "setItem st k v =
     (if setItem_throws st k v then Inl StorageError
      else Inr (st\<lparr>items := (items st)(k \<mapsto> v)\<rparr>))"

text \<open>\<open>a || b\<close> on a string or \<open>null\<close>: \<open>null\<close> and the empty string are falsy.\<close>

fun js_or :: "string option \<Rightarrow> string \<Rightarrow> string" where
  "js_or None d = d"
| "js_or (Some s) d = (if s = [] then d else s)"

text \<open>
  A string where JavaScript expects one: \<open>undefined\<close> becomes that word (the argument of
  \<open>setAttribute\<close>, the value assigned to a control).
\<close>

fun js_string :: "string option \<Rightarrow> string" where
  "js_string None = ''undefined''"
| "js_string (Some s) = s"

text \<open>
  Assigning to \<open>value\<close>. A \<open>select\<close> selects the option with that value; when it has
  none, nothing is selected and \<open>value\<close> reads as the empty string.
\<close>

definition accepts :: "element \<Rightarrow> string \<Rightarrow> bool" where
  "accepts el v = (case el_options el of None \<Rightarrow> True | Some opts \<Rightarrow> v \<in> set opts)"

definition assign_value :: "string \<Rightarrow> element \<Rightarrow> element" where
  "assign_value v el = el\<lparr>el_value := (if accepts el v then v else [])\<rparr>"

text \<open>A listener that is already registered is not registered twice.\<close>

definition addEventListener :: "nat \<Rightarrow> listener \<Rightarrow> world \<Rightarrow> world" where
  "addEventListener e l w =
     (let el = elements w e in
      if l \<in> set (listeners el) then w
      else w\<lparr>elements := (elements w)(e := el\<lparr>listeners := listeners el @ [l]\<rparr>)\<rparr>)"

definition removeEventListener :: "nat \<Rightarrow> listener \<Rightarrow> world \<Rightarrow> world" where
  "removeEventListener e l w =
     (let el = elements w e in
      w\<lparr>elements := (elements w)(e := el\<lparr>listeners := removeAll l (listeners el)\<rparr>)\<rparr>)"

subsection \<open>Construction\<close>

definition mk_config :: "options \<Rightarrow> config" where
  "mk_config opts =
     \<lparr>themeSelector = (case opt_themeSelector opts of None \<Rightarrow> ''#theme-toggle'' | Some x \<Rightarrow> x),
      fontSelector = (case opt_fontSelector opts of None \<Rightarrow> ''#font-toggle'' | Some x \<Rightarrow> x),
      fontSizeSelector =
        (case opt_fontSizeSelector opts of None \<Rightarrow> ''#font-size-toggle'' | Some x \<Rightarrow> x),
      storagePrefix =
        (case opt_storagePrefix opts of None \<Rightarrow> ''theme-font-toggle'' | Some x \<Rightarrow> x),
      defaultTheme = (case opt_defaultTheme opts of None \<Rightarrow> ''light'' | Some x \<Rightarrow> x),
      defaultFont = (case opt_defaultFont opts of None \<Rightarrow> ''system'' | Some x \<Rightarrow> x),
      defaultFontSize = (case opt_defaultFontSize opts of None \<Rightarrow> ''medium'' | Some x \<Rightarrow> x),
      autoDetectSystemTheme =
        (case opt_autoDetectSystemTheme opts of None \<Rightarrow> True | Some x \<Rightarrow> x)\<rparr>"

definition mk_storageKeys :: "config \<Rightarrow> storageKeys" where
  "mk_storageKeys cfg =
     \<lparr>theme_key = storagePrefix cfg @ ''-theme'',
      font_key = storagePrefix cfg @ ''-font'',
      fontSize_key = storagePrefix cfg @ ''-font-size''\<rparr>"

text \<open>\<open>this.storageKeys[key]\<close> for the three keys the class uses.\<close>

fun storageKey :: "storageKeys \<Rightarrow> dimension \<Rightarrow> string" where
  "storageKey ks Theme = theme_key ks"
| "storageKey ks Font = font_key ks"
| "storageKey ks FontSize = fontSize_key ks"

definition getStoredValue :: "nat \<Rightarrow> dimension \<Rightarrow> world \<Rightarrow> string option" where
  "getStoredValue this key w =
     (case getItem (localStorage w) (storageKey (storageKeys (instances w this)) key) of
        Inl _ \<Rightarrow> None
      | Inr r \<Rightarrow> r)"

definition setStoredValue :: "nat \<Rightarrow> dimension \<Rightarrow> string \<Rightarrow> world \<Rightarrow> world" where
  "setStoredValue this key v w =
     (let k = storageKey (storageKeys (instances w this)) key;
          w1 = w\<lparr>calls := calls w @ [SetItem k v]\<rparr>
      in case setItem (localStorage w) k v of
           Inl _ \<Rightarrow> w1
         | Inr st \<Rightarrow> w1\<lparr>localStorage := st\<rparr>)"

definition loadPreferences :: "nat \<Rightarrow> world \<Rightarrow> world" where
  "loadPreferences this w =
     (let c = instances w this in
      w\<lparr>instances := (instances w)(this := c
          \<lparr>currentTheme :=
             Some (js_or (getStoredValue this Theme w) (defaultTheme (config c))),
           currentFont := Some (js_or (getStoredValue this Font w) (defaultFont (config c))),
           currentFontSize :=
             Some (js_or (getStoredValue this FontSize w) (defaultFontSize (config c)))\<rparr>)\<rparr>)"

definition setupEventListeners :: "nat \<Rightarrow> world \<Rightarrow> world" where
  "setupEventListeners this w =
     (let w1 = (case themeSelectorEl (instances w this) of
                  None \<Rightarrow> w | Some e \<Rightarrow> addEventListener e (ThemeChangeArrow this) w);
          w2 = (case fontSelectorEl (instances w1 this) of
                  None \<Rightarrow> w1 | Some e \<Rightarrow> addEventListener e (FontChangeArrow this) w1)
      in case fontSizeSelectorEl (instances w2 this) of
           None \<Rightarrow> w2 | Some e \<Rightarrow> addEventListener e (FontSizeChangeArrow this) w2)"

definition setupSystemThemeListener :: "nat \<Rightarrow> world \<Rightarrow> world" where
  "setupSystemThemeListener this w =
     (if matchMedia w then w\<lparr>mediaListeners := mediaListeners w @ [SystemThemeArrow this]\<rparr>
      else w)"

subsection \<open>Applying and setting\<close>

definition applyTheme :: "string \<Rightarrow> world \<Rightarrow> world" where
  "applyTheme t w =
     w\<lparr>attributes := (attributes w)(''data-theme'' \<mapsto> t),
       calls := calls w @ [SetAttribute ''data-theme'' t]\<rparr>"

definition applyFont :: "string \<Rightarrow> world \<Rightarrow> world" where
  "applyFont f w =
     w\<lparr>attributes := (attributes w)(''data-font'' \<mapsto> f),
       calls := calls w @ [SetAttribute ''data-font'' f]\<rparr>"

definition applyFontSize :: "string \<Rightarrow> world \<Rightarrow> world" where
  "applyFontSize fs w =
     w\<lparr>attributes := (attributes w)(''data-font-size'' \<mapsto> fs),
       calls := calls w @ [SetAttribute ''data-font-size'' fs]\<rparr>"

definition updateSelector :: "nat option \<Rightarrow> string \<Rightarrow> world \<Rightarrow> world" where
  "updateSelector selector v w =
     (case selector of
        None \<Rightarrow> w
      | Some e \<Rightarrow>
          if el_value (elements w e) \<noteq> v
          then w\<lparr>elements := (elements w)(e := assign_value v (elements w e))\<rparr>
          else w)"

text \<open>
  The custom event is of type \<open>themeFontToggle:<eventName>\<close> and is dispatched on the
  document. What its listeners do (the popup relays it to the active tab) is outside the
  class; here the dispatch is recorded.
\<close>

definition dispatchEvent :: "string \<Rightarrow> settings \<Rightarrow> world \<Rightarrow> world" where
  "dispatchEvent eventName detail w =
     w\<lparr>calls := calls w @ [DispatchEvent (''themeFontToggle:'' @ eventName) detail]\<rparr>"

definition getTheme :: "nat \<Rightarrow> world \<Rightarrow> string option" where
  "getTheme this w = currentTheme (instances w this)"

definition getFont :: "nat \<Rightarrow> world \<Rightarrow> string option" where
  "getFont this w = currentFont (instances w this)"

definition getFontSize :: "nat \<Rightarrow> world \<Rightarrow> string option" where
  "getFontSize this w = currentFontSize (instances w this)"

definition getSettings :: "nat \<Rightarrow> world \<Rightarrow> settings" where
  "getSettings this w =
     \<lparr>theme = currentTheme (instances w this),
      font = currentFont (instances w this),
      fontSize = currentFontSize (instances w this)\<rparr>"

definition setTheme :: "nat \<Rightarrow> string \<Rightarrow> world \<Rightarrow> world" where
  "setTheme this t w =
     (let w1 = w\<lparr>instances := (instances w)(this := (instances w this)\<lparr>currentTheme := Some t\<rparr>)\<rparr>;
          w2 = setStoredValue this Theme t w1;
          w3 = applyTheme t w2;
          w4 = updateSelector (themeSelectorEl (instances w3 this)) t w3
      in dispatchEvent ''themeChanged''
           \<lparr>theme = Some t,
            font = currentFont (instances w4 this),
            fontSize = currentFontSize (instances w4 this)\<rparr> w4)"

definition setFont :: "nat \<Rightarrow> string \<Rightarrow> world \<Rightarrow> world" where
  "setFont this f w =
     (let w1 = w\<lparr>instances := (instances w)(this := (instances w this)\<lparr>currentFont := Some f\<rparr>)\<rparr>;
          w2 = setStoredValue this Font f w1;
          w3 = applyFont f w2;
          w4 = updateSelector (fontSelectorEl (instances w3 this)) f w3
      in dispatchEvent ''fontChanged''
           \<lparr>theme = currentTheme (instances w4 this),
            font = Some f,
            fontSize = currentFontSize (instances w4 this)\<rparr> w4)"

definition setFontSize :: "nat \<Rightarrow> string \<Rightarrow> world \<Rightarrow> world" where
  "setFontSize this fs w =
     (let w1 = w\<lparr>instances :=
                  (instances w)(this := (instances w this)\<lparr>currentFontSize := Some fs\<rparr>)\<rparr>;
          w2 = setStoredValue this FontSize fs w1;
          w3 = applyFontSize fs w2;
          w4 = updateSelector (fontSizeSelectorEl (instances w3 this)) fs w3
      in dispatchEvent ''fontSizeChanged''
           \<lparr>theme = currentTheme (instances w4 this),
            font = currentFont (instances w4 this),
            fontSize = Some fs\<rparr> w4)"

text \<open>
  \<open>applySettings\<close> passes the current values on as they are. One that is still
  \<open>undefined\<close> reaches \<open>setAttribute\<close> and the control as the word \<open>undefined\<close>.
\<close>

definition applySettings :: "nat \<Rightarrow> world \<Rightarrow> world" where
  "applySettings this w =
     (let w1 = applyTheme (js_string (currentTheme (instances w this))) w;
          w2 = applyFont (js_string (currentFont (instances w1 this))) w1;
          w3 = applyFontSize (js_string (currentFontSize (instances w2 this))) w2;
          w4 = updateSelector (themeSelectorEl (instances w3 this))
                 (js_string (currentTheme (instances w3 this))) w3;
          w5 = updateSelector (fontSelectorEl (instances w4 this))
                 (js_string (currentFont (instances w4 this))) w4
      in updateSelector (fontSizeSelectorEl (instances w5 this))
           (js_string (currentFontSize (instances w5 this))) w5)"

definition reset :: "nat \<Rightarrow> world \<Rightarrow> world" where
  "reset this w =
     (let w1 = setTheme this (defaultTheme (config (instances w this))) w;
          w2 = setFont this (defaultFont (config (instances w1 this))) w1;
          w3 = setFontSize this (defaultFontSize (config (instances w2 this))) w2
      in dispatchEvent ''reset'' (getSettings this w3) w3)"

definition destroy :: "nat \<Rightarrow> world \<Rightarrow> world" where
  "destroy this w =
     (let w1 = (case themeSelectorEl (instances w this) of
                  None \<Rightarrow> w | Some e \<Rightarrow> removeEventListener e Method_setTheme w);
          w2 = (case fontSelectorEl (instances w1 this) of
                  None \<Rightarrow> w1 | Some e \<Rightarrow> removeEventListener e Method_setFont w1);
          w3 = (case fontSizeSelectorEl (instances w2 this) of
                  None \<Rightarrow> w2 | Some e \<Rightarrow> removeEventListener e Method_setFontSize w2);
          w4 = w3\<lparr>instances := (instances w3)(this := (instances w3 this)
                  \<lparr>themeSelectorEl := None, fontSelectorEl := None,
                   fontSizeSelectorEl := None\<rparr>)\<rparr>
      in dispatchEvent ''destroyed'' (getSettings this w4) w4)"

text \<open>
  The method \<open>setup\<close> (here \<open>setup_plugin\<close>): it binds the controls, loads the
  preferences, registers the listeners, applies the settings and announces itself.
\<close>

definition setup_plugin :: "nat \<Rightarrow> world \<Rightarrow> world" where
  "setup_plugin this w =
     (let c = instances w this;
          w1 = w\<lparr>instances := (instances w)(this := c
                 \<lparr>themeSelectorEl := querySelector w (themeSelector (config c)),
                  fontSelectorEl := querySelector w (fontSelector (config c)),
                  fontSizeSelectorEl := querySelector w (fontSizeSelector (config c))\<rparr>)\<rparr>;
          w2 = loadPreferences this w1;
          w3 = setupEventListeners this w2;
          w4 = (if autoDetectSystemTheme (config (instances w3 this))
                then setupSystemThemeListener this w3 else w3);
          w5 = applySettings this w4
      in dispatchEvent ''initialized'' (getSettings this w5) w5)"

text \<open>
  \<open>init\<close>: while the document is loading, \<open>setup\<close> is registered for
  \<open>DOMContentLoaded\<close> and the constructor returns with the three current values and the
  three controls undefined; otherwise \<open>setup\<close> runs at once.
\<close>

definition init :: "nat \<Rightarrow> world \<Rightarrow> world" where
  "init this w =
     (if loading w then w\<lparr>pending_setups := pending_setups w @ [this]\<rparr>
      else setup_plugin this w)"

text \<open>\<open>new ThemeFontToggle(options)\<close>: the address of the new instance, and the page.\<close>

definition constructor :: "options \<Rightarrow> world \<Rightarrow> nat \<times> world" where
  "constructor opts w =
     (let this = next_instance w;
          cfg = mk_config opts;
          c = \<lparr>config = cfg, storageKeys = mk_storageKeys cfg,
               themeSelectorEl = None, fontSelectorEl = None, fontSizeSelectorEl = None,
               currentTheme = None, currentFont = None, currentFontSize = None\<rparr>
      in (this, init this (w\<lparr>instances := (instances w)(this := c),
                        next_instance := Suc this\<rparr>)))"

subsection \<open>Events reaching the controller\<close>

text \<open>
  What a registered function does when it is called for an event on the element
  \<open>target\<close>. A method registered bare would run with the element as \<open>this\<close> and fail
  on \<open>this.setStoredValue\<close>; the failure stays inside the event dispatch and the page is
  as before.
\<close>

fun run_listener :: "listener \<Rightarrow> nat \<Rightarrow> world \<Rightarrow> world" where
  "run_listener (ThemeChangeArrow this) target w = setTheme this (el_value (elements w target)) w"
| "run_listener (FontChangeArrow this) target w = setFont this (el_value (elements w target)) w"
| "run_listener (FontSizeChangeArrow this) target w =
     setFontSize this (el_value (elements w target)) w"
| "run_listener (SystemThemeArrow this) target w =
     (if currentTheme (instances w this) = Some ''auto'' then applyTheme ''auto'' w else w)"
| "run_listener Method_setTheme target w = w"
| "run_listener Method_setFont target w = w"
| "run_listener Method_setFontSize target w = w"

text \<open>A \<open>change\<close> event on a control runs the listeners registered when it is dispatched.\<close>

definition changeEvent :: "nat \<Rightarrow> world \<Rightarrow> world" where
  "changeEvent e w = fold (\<lambda>l. run_listener l e) (listeners (elements w e)) w"

text \<open>The user picks \<open>v\<close> in the control \<open>e\<close>: the value changes, then the event fires.\<close>

definition userSelects :: "nat \<Rightarrow> string \<Rightarrow> world \<Rightarrow> world" where
  "userSelects e v w =
     changeEvent e (w\<lparr>elements := (elements w)(e := assign_value v (elements w e))\<rparr>)"

text \<open>The system colour scheme changes: the listeners of the media query list run.\<close>

definition systemThemeChange :: "world \<Rightarrow> world" where
  "systemThemeChange w = fold (\<lambda>l. run_listener l 0) (mediaListeners w) w"

text \<open>
  The document has been parsed: \<open>readyState\<close> is no longer \<open>'loading'\<close> and the
  \<open>DOMContentLoaded\<close> listeners run, each the \<open>setup\<close> of a waiting instance.
\<close>

definition domContentLoaded :: "world \<Rightarrow> world" where
  "domContentLoaded w =
     fold setup_plugin (pending_setups w) (w\<lparr>loading := False, pending_setups := []\<rparr>)"

subsection \<open>The three setters and getters by dimension\<close>

fun setDimension :: "dimension \<Rightarrow> nat \<Rightarrow> string \<Rightarrow> world \<Rightarrow> world" where
  "setDimension Theme this v w = setTheme this v w"
| "setDimension Font this v w = setFont this v w"
| "setDimension FontSize this v w = setFontSize this v w"

fun getDimension :: "dimension \<Rightarrow> nat \<Rightarrow> world \<Rightarrow> string option" where
  "getDimension Theme this w = getTheme this w"
| "getDimension Font this w = getFont this w"
| "getDimension FontSize this w = getFontSize this w"

fun selectorEl :: "dimension \<Rightarrow> controller \<Rightarrow> nat option" where
  "selectorEl Theme c = themeSelectorEl c"
| "selectorEl Font c = fontSelectorEl c"
| "selectorEl FontSize c = fontSizeSelectorEl c"

fun defaultOf :: "dimension \<Rightarrow> config \<Rightarrow> string" where
  "defaultOf Theme cfg = defaultTheme cfg"
| "defaultOf Font cfg = defaultFont cfg"
| "defaultOf FontSize cfg = defaultFontSize cfg"

fun changedEvent :: "dimension \<Rightarrow> string" where
  "changedEvent Theme = ''themeFontToggle:themeChanged''"
| "changedEvent Font = ''themeFontToggle:fontChanged''"
| "changedEvent FontSize = ''themeFontToggle:fontSizeChanged''"

fun attributeOf :: "dimension \<Rightarrow> string" where
  "attributeOf Theme = ''data-theme''"
| "attributeOf Font = ''data-font''"
| "attributeOf FontSize = ''data-font-size''"

text \<open>The notifications among the calls: event type and detail, in order.\<close>

fun notifications :: "call list \<Rightarrow> (string \<times> settings) list" where
  "notifications [] = []"
| "notifications (DispatchEvent n d # cs) = (n, d) # notifications cs"
| "notifications (_ # cs) = notifications cs"

section \<open>The content script of a page context\<close>

text \<open>
  A page context has no controller: it keeps the attributes of its root element and the
  style element \<open>#theme-toggle-styles\<close>, injected once. A message is the object the
  popup sends; a field that is left out reads as \<open>undefined\<close>, here \<open>None\<close>.
\<close>

record partial_settings =
  ps_theme :: "string option"
  ps_font :: "string option"
  ps_fontSize :: "string option"

record message =
  action :: "string option"
  msg_theme :: "string option"
  msg_font :: "string option"
  msg_fontSize :: "string option"
  msg_settings :: "partial_settings option"

record response =
  success :: bool
  error :: "string option"

record page =
  page_attributes :: "string \<rightharpoonup> string"
  themeStyles :: bool

definition injectThemeStyles :: "page \<Rightarrow> page" where
  "injectThemeStyles p = p\<lparr>themeStyles := True\<rparr>"

definition cs_applyTheme :: "string \<Rightarrow> page \<Rightarrow> page" where
  "cs_applyTheme t p =
     (let p1 = p\<lparr>page_attributes := (page_attributes p)(''data-theme'' \<mapsto> t)\<rparr>
      in if \<not> themeStyles p1 then injectThemeStyles p1 else p1)"

definition cs_applyFont :: "string \<Rightarrow> page \<Rightarrow> page" where
  "cs_applyFont f p = p\<lparr>page_attributes := (page_attributes p)(''data-font'' \<mapsto> f)\<rparr>"

definition cs_applyFontSize :: "string \<Rightarrow> page \<Rightarrow> page" where
  "cs_applyFontSize fs p =
     p\<lparr>page_attributes := (page_attributes p)(''data-font-size'' \<mapsto> fs)\<rparr>"

text \<open>\<open>if (x) f(x)\<close>: \<open>undefined\<close> and the empty string are falsy.\<close>

fun when_truthy :: "(string \<Rightarrow> page \<Rightarrow> page) \<Rightarrow> string option \<Rightarrow> page \<Rightarrow> page" where
  "when_truthy f None p = p"
| "when_truthy f (Some s) p = (if s = [] then p else f s p)"

text \<open>The listener of \<open>chrome.runtime.onMessage\<close>: what it passes to \<open>sendResponse\<close>, and the page.\<close>

definition onMessage :: "message \<Rightarrow> page \<Rightarrow> response \<times> page" where
  "onMessage m p =
     (if action m = Some ''setTheme'' then
        (\<lparr>success = True, error = None\<rparr>, cs_applyTheme (js_string (msg_theme m)) p)
      else if action m = Some ''setFont'' then
        (\<lparr>success = True, error = None\<rparr>, cs_applyFont (js_string (msg_font m)) p)
      else if action m = Some ''setFontSize'' then
        (\<lparr>success = True, error = None\<rparr>, cs_applyFontSize (js_string (msg_fontSize m)) p)
      else if action m = Some ''applySettings'' then
        (\<lparr>success = True, error = None\<rparr>,
         (case msg_settings m of
            None \<Rightarrow> p
          | Some st \<Rightarrow>
              when_truthy cs_applyFontSize (ps_fontSize st)
                (when_truthy cs_applyFont (ps_font st)
                  (when_truthy cs_applyTheme (ps_theme st) p))))
      else (\<lparr>success = False, error = Some ''Unknown action''\<rparr>, p))"

section \<open>Example pages\<close>

text \<open>
  The page of the documentation, parsed: the three \<open>select\<close> controls with their options
  (nodes 1, 2 and 3, each showing its first option), an empty working storage and media
  queries. \<open>demo_blocked\<close> is the same page with a storage that throws on every access,
  \<open>demo_stored\<close> one whose storage holds a theme, an empty font and no font size, and
  \<open>demo_loading\<close> is \<open>demo_stored\<close> while the document is still loading. Constructing
  a controller with no options on each of them gives \<open>demo\<close>, \<open>demo_offline\<close>,
  \<open>demo_auto\<close> and \<open>demo_early\<close>.
\<close>

definition no_options :: options where
  "no_options =
     \<lparr>opt_themeSelector = None, opt_fontSelector = None, opt_fontSizeSelector = None,
      opt_storagePrefix = None, opt_defaultTheme = None, opt_defaultFont = None,
      opt_defaultFontSize = None, opt_autoDetectSystemTheme = None\<rparr>"

definition demo_page :: world where
  "demo_page =
     \<lparr>localStorage = \<lparr>items = Map.empty, getItem_throws = (\<lambda>k. False),
                       setItem_throws = (\<lambda>k v. False)\<rparr>,
      loading = False,
      pending_setups = [],
      querySelector = (\<lambda>s. if s = ''#theme-toggle'' then Some 1
                            else if s = ''#font-toggle'' then Some 2
                            else if s = ''#font-size-toggle'' then Some 3 else None),
      elements = (\<lambda>n.
        if n = 1 then
          \<lparr>el_value = ''light'', el_options = Some [''light'', ''dark'', ''auto''],
           listeners = []\<rparr>
        else if n = 2 then
          \<lparr>el_value = ''system'',
           el_options = Some [''system'', ''serif'', ''sans-serif'', ''monospace'', ''cursive''],
           listeners = []\<rparr>
        else if n = 3 then
          \<lparr>el_value = ''small'',
           el_options = Some [''small'', ''medium'', ''large'', ''extra-large''],
           listeners = []\<rparr>
        else \<lparr>el_value = [], el_options = None, listeners = []\<rparr>),
      attributes = Map.empty,
      matchMedia = True,
      mediaListeners = [],
      instances = (\<lambda>n. \<lparr>config = mk_config no_options,
         storageKeys = \<lparr>theme_key = [], font_key = [], fontSize_key = []\<rparr>,
         themeSelectorEl = None, fontSelectorEl = None, fontSizeSelectorEl = None,
         currentTheme = None, currentFont = None, currentFontSize = None\<rparr>),
      next_instance = 0,
      calls = []\<rparr>"

definition demo_blocked :: world where
  "demo_blocked =
     demo_page\<lparr>localStorage := \<lparr>items = Map.empty, getItem_throws = (\<lambda>k. True),
                                 setItem_throws = (\<lambda>k v. True)\<rparr>\<rparr>"

definition demo_stored :: world where
  "demo_stored =
     demo_page\<lparr>localStorage :=
       \<lparr>items = [''theme-font-toggle-theme'' \<mapsto> ''auto'', ''theme-font-toggle-font'' \<mapsto> []],
        getItem_throws = (\<lambda>k. False), setItem_throws = (\<lambda>k v. False)\<rparr>\<rparr>"

definition demo_loading :: world where
  "demo_loading = demo_stored\<lparr>loading := True\<rparr>"

definition demo_page_context :: page where
  "demo_page_context =
     \<lparr>page_attributes = [''data-theme'' \<mapsto> ''light'', ''data-font'' \<mapsto> ''serif''],
      themeStyles = True\<rparr>"

definition demo :: world where
  "demo = snd (constructor no_options demo_page)"

definition demo_auto :: world where
  "demo_auto = snd (constructor no_options demo_stored)"

definition demo_offline :: world where
  "demo_offline = snd (constructor no_options demo_blocked)"

definition demo_early :: world where
  "demo_early = snd (constructor no_options demo_loading)"

text \<open>The documentation page loading again after \<open>setTheme('dark')\<close> on \<open>demo\<close>.\<close>

definition demo_reloading :: world where
  "demo_reloading = demo_loading\<lparr>localStorage := localStorage (setTheme 0 ''dark'' demo)\<rparr>"

text \<open>Messages to a page context.\<close>

definition bogus_message :: message where
  "bogus_message =
     \<lparr>action = Some ''toggleTheme'', msg_theme = Some ''dark'', msg_font = None,
      msg_fontSize = None, msg_settings = None\<rparr>"

definition theme_message :: message where
  "theme_message =
     \<lparr>action = Some ''setTheme'', msg_theme = Some ''dark'', msg_font = None,
      msg_fontSize = None, msg_settings = None\<rparr>"

definition settings_message :: "partial_settings \<Rightarrow> message" where
  "settings_message st =
     \<lparr>action = Some ''applySettings'', msg_theme = None, msg_font = None,
      msg_fontSize = None, msg_settings = Some st\<rparr>"

section \<open>Properties of the controller\<close>

subsection \<open>What each step changes\<close>

lemma notifications_append: "notifications (xs @ ys) = notifications xs @ notifications ys"
  by (induction xs rule: notifications.induct) simp_all

lemma addEventListener_frame [simp]:
  "localStorage (addEventListener e l w) = localStorage w"
  "loading (addEventListener e l w) = loading w"
  "pending_setups (addEventListener e l w) = pending_setups w"
  "querySelector (addEventListener e l w) = querySelector w"
  "attributes (addEventListener e l w) = attributes w"
  "matchMedia (addEventListener e l w) = matchMedia w"
  "mediaListeners (addEventListener e l w) = mediaListeners w"
  "instances (addEventListener e l w) = instances w"
  "next_instance (addEventListener e l w) = next_instance w"
  "calls (addEventListener e l w) = calls w"
  by (simp_all add: addEventListener_def Let_def)

lemma addEventListener_elements [simp]:
  "elements (addEventListener e l w) =
     (elements w)(e := (elements w e)\<lparr>listeners :=
        (if l \<in> set (listeners (elements w e)) then listeners (elements w e)
         else listeners (elements w e) @ [l])\<rparr>)"
  by (simp add: addEventListener_def Let_def)

lemma removeEventListener_frame [simp]:
  "localStorage (removeEventListener e l w) = localStorage w"
  "loading (removeEventListener e l w) = loading w"
  "pending_setups (removeEventListener e l w) = pending_setups w"
  "querySelector (removeEventListener e l w) = querySelector w"
  "attributes (removeEventListener e l w) = attributes w"
  "matchMedia (removeEventListener e l w) = matchMedia w"
  "mediaListeners (removeEventListener e l w) = mediaListeners w"
  "instances (removeEventListener e l w) = instances w"
  "next_instance (removeEventListener e l w) = next_instance w"
  "calls (removeEventListener e l w) = calls w"
  "elements (removeEventListener e l w) =
     (elements w)(e := (elements w e)\<lparr>listeners := removeAll l (listeners (elements w e))\<rparr>)"
  by (simp_all add: removeEventListener_def Let_def)

lemma setStoredValue_frame [simp]:
  "loading (setStoredValue this k v w) = loading w"
  "pending_setups (setStoredValue this k v w) = pending_setups w"
  "querySelector (setStoredValue this k v w) = querySelector w"
  "elements (setStoredValue this k v w) = elements w"
  "attributes (setStoredValue this k v w) = attributes w"
  "matchMedia (setStoredValue this k v w) = matchMedia w"
  "mediaListeners (setStoredValue this k v w) = mediaListeners w"
  "instances (setStoredValue this k v w) = instances w"
  "next_instance (setStoredValue this k v w) = next_instance w"
  "calls (setStoredValue this k v w) =
     calls w @ [SetItem (storageKey (storageKeys (instances w this)) k) v]"
  by (simp_all add: setStoredValue_def Let_def split: sum.splits)

lemma setStoredValue_storage [simp]:
  "localStorage (setStoredValue this k v w) =
     (if setItem_throws (localStorage w) (storageKey (storageKeys (instances w this)) k) v
      then localStorage w
      else (localStorage w)\<lparr>items :=
             (items (localStorage w))(storageKey (storageKeys (instances w this)) k \<mapsto> v)\<rparr>)"
  by (simp add: setStoredValue_def setItem_def Let_def)

lemma applyTheme_frame [simp]:
  "localStorage (applyTheme t w) = localStorage w"
  "loading (applyTheme t w) = loading w"
  "pending_setups (applyTheme t w) = pending_setups w"
  "querySelector (applyTheme t w) = querySelector w"
  "elements (applyTheme t w) = elements w"
  "matchMedia (applyTheme t w) = matchMedia w"
  "mediaListeners (applyTheme t w) = mediaListeners w"
  "instances (applyTheme t w) = instances w"
  "next_instance (applyTheme t w) = next_instance w"
  "calls (applyTheme t w) = calls w @ [SetAttribute ''data-theme'' t]"
  "attributes (applyTheme t w) = (attributes w)(''data-theme'' \<mapsto> t)"
  by (simp_all add: applyTheme_def)

lemma applyFont_frame [simp]:
  "localStorage (applyFont t w) = localStorage w"
  "loading (applyFont t w) = loading w"
  "pending_setups (applyFont t w) = pending_setups w"
  "querySelector (applyFont t w) = querySelector w"
  "elements (applyFont t w) = elements w"
  "matchMedia (applyFont t w) = matchMedia w"
  "mediaListeners (applyFont t w) = mediaListeners w"
  "instances (applyFont t w) = instances w"
  "next_instance (applyFont t w) = next_instance w"
  "calls (applyFont t w) = calls w @ [SetAttribute ''data-font'' t]"
  "attributes (applyFont t w) = (attributes w)(''data-font'' \<mapsto> t)"
  by (simp_all add: applyFont_def)

lemma applyFontSize_frame [simp]:
  "localStorage (applyFontSize t w) = localStorage w"
  "loading (applyFontSize t w) = loading w"
  "pending_setups (applyFontSize t w) = pending_setups w"
  "querySelector (applyFontSize t w) = querySelector w"
  "elements (applyFontSize t w) = elements w"
  "matchMedia (applyFontSize t w) = matchMedia w"
  "mediaListeners (applyFontSize t w) = mediaListeners w"
  "instances (applyFontSize t w) = instances w"
  "next_instance (applyFontSize t w) = next_instance w"
  "calls (applyFontSize t w) = calls w @ [SetAttribute ''data-font-size'' t]"
  "attributes (applyFontSize t w) = (attributes w)(''data-font-size'' \<mapsto> t)"
  by (simp_all add: applyFontSize_def)

lemma updateSelector_frame [simp]:
  "localStorage (updateSelector sel v w) = localStorage w"
  "loading (updateSelector sel v w) = loading w"
  "pending_setups (updateSelector sel v w) = pending_setups w"
  "querySelector (updateSelector sel v w) = querySelector w"
  "attributes (updateSelector sel v w) = attributes w"
  "matchMedia (updateSelector sel v w) = matchMedia w"
  "mediaListeners (updateSelector sel v w) = mediaListeners w"
  "instances (updateSelector sel v w) = instances w"
  "next_instance (updateSelector sel v w) = next_instance w"
  "calls (updateSelector sel v w) = calls w"
  by (simp_all add: updateSelector_def split: option.splits)

text \<open>
  A control that already reads \<open>v\<close> is left alone; any other is assigned \<open>v\<close> and then
  reads \<open>v\<close> if it can hold it, and the empty string if it is a \<open>select\<close> with no such
  option. The other controls keep their value, and no listener list changes.
\<close>

lemma updateSelector_elements [simp]:
  "elements (updateSelector sel v w) n =
     (if sel = Some n \<and> el_value (elements w n) \<noteq> v then assign_value v (elements w n)
      else elements w n)"
  by (simp add: updateSelector_def split: option.splits)

lemma assign_value_fields [simp]:
  "el_value (assign_value v el) = (if accepts el v then v else [])"
  "el_options (assign_value v el) = el_options el"
  "listeners (assign_value v el) = listeners el"
  by (simp_all add: assign_value_def)

lemma dispatchEvent_frame [simp]:
  "localStorage (dispatchEvent n d w) = localStorage w"
  "loading (dispatchEvent n d w) = loading w"
  "pending_setups (dispatchEvent n d w) = pending_setups w"
  "querySelector (dispatchEvent n d w) = querySelector w"
  "elements (dispatchEvent n d w) = elements w"
  "attributes (dispatchEvent n d w) = attributes w"
  "matchMedia (dispatchEvent n d w) = matchMedia w"
  "mediaListeners (dispatchEvent n d w) = mediaListeners w"
  "instances (dispatchEvent n d w) = instances w"
  "next_instance (dispatchEvent n d w) = next_instance w"
  "calls (dispatchEvent n d w) = calls w @ [DispatchEvent (''themeFontToggle:'' @ n) d]"
  by (simp_all add: dispatchEvent_def)

subsection \<open>The setters\<close>

lemma setTheme_frame [simp]:
  "loading (setTheme this t w) = loading w"
  "pending_setups (setTheme this t w) = pending_setups w"
  "querySelector (setTheme this t w) = querySelector w"
  "matchMedia (setTheme this t w) = matchMedia w"
  "mediaListeners (setTheme this t w) = mediaListeners w"
  "next_instance (setTheme this t w) = next_instance w"
  "instances (setTheme this t w) =
     (instances w)(this := (instances w this)\<lparr>currentTheme := Some t\<rparr>)"
  "attributes (setTheme this t w) = (attributes w)(''data-theme'' \<mapsto> t)"
  "elements (setTheme this t w) n =
     (if themeSelectorEl (instances w this) = Some n \<and> el_value (elements w n) \<noteq> t
      then assign_value t (elements w n) else elements w n)"
  "calls (setTheme this t w) = calls w @
     [SetItem (theme_key (storageKeys (instances w this))) t, SetAttribute ''data-theme'' t,
      DispatchEvent ''themeFontToggle:themeChanged''
        \<lparr>theme = Some t, font = currentFont (instances w this),
         fontSize = currentFontSize (instances w this)\<rparr>]"
  "localStorage (setTheme this t w) =
     (if setItem_throws (localStorage w) (theme_key (storageKeys (instances w this))) t
      then localStorage w
      else (localStorage w)\<lparr>items :=
             (items (localStorage w))(theme_key (storageKeys (instances w this)) \<mapsto> t)\<rparr>)"
  by (simp_all add: setTheme_def Let_def)

lemma setFont_frame [simp]:
  "loading (setFont this t w) = loading w"
  "pending_setups (setFont this t w) = pending_setups w"
  "querySelector (setFont this t w) = querySelector w"
  "matchMedia (setFont this t w) = matchMedia w"
  "mediaListeners (setFont this t w) = mediaListeners w"
  "next_instance (setFont this t w) = next_instance w"
  "instances (setFont this t w) =
     (instances w)(this := (instances w this)\<lparr>currentFont := Some t\<rparr>)"
  "attributes (setFont this t w) = (attributes w)(''data-font'' \<mapsto> t)"
  "elements (setFont this t w) n =
     (if fontSelectorEl (instances w this) = Some n \<and> el_value (elements w n) \<noteq> t
      then assign_value t (elements w n) else elements w n)"
  "calls (setFont this t w) = calls w @
     [SetItem (font_key (storageKeys (instances w this))) t, SetAttribute ''data-font'' t,
      DispatchEvent ''themeFontToggle:fontChanged''
        \<lparr>theme = currentTheme (instances w this), font = Some t,
         fontSize = currentFontSize (instances w this)\<rparr>]"
  "localStorage (setFont this t w) =
     (if setItem_throws (localStorage w) (font_key (storageKeys (instances w this))) t
      then localStorage w
      else (localStorage w)\<lparr>items :=
             (items (localStorage w))(font_key (storageKeys (instances w this)) \<mapsto> t)\<rparr>)"
  by (simp_all add: setFont_def Let_def)

lemma setFontSize_frame [simp]:
  "loading (setFontSize this t w) = loading w"
  "pending_setups (setFontSize this t w) = pending_setups w"
  "querySelector (setFontSize this t w) = querySelector w"
  "matchMedia (setFontSize this t w) = matchMedia w"
  "mediaListeners (setFontSize this t w) = mediaListeners w"
  "next_instance (setFontSize this t w) = next_instance w"
  "instances (setFontSize this t w) =
     (instances w)(this := (instances w this)\<lparr>currentFontSize := Some t\<rparr>)"
  "attributes (setFontSize this t w) = (attributes w)(''data-font-size'' \<mapsto> t)"
  "elements (setFontSize this t w) n =
     (if fontSizeSelectorEl (instances w this) = Some n \<and> el_value (elements w n) \<noteq> t
      then assign_value t (elements w n) else elements w n)"
  "calls (setFontSize this t w) = calls w @
     [SetItem (fontSize_key (storageKeys (instances w this))) t,
      SetAttribute ''data-font-size'' t,
      DispatchEvent ''themeFontToggle:fontSizeChanged''
        \<lparr>theme = currentTheme (instances w this), font = currentFont (instances w this),
         fontSize = Some t\<rparr>]"
  "localStorage (setFontSize this t w) =
     (if setItem_throws (localStorage w) (fontSize_key (storageKeys (instances w this))) t
      then localStorage w
      else (localStorage w)\<lparr>items :=
             (items (localStorage w))(fontSize_key (storageKeys (instances w this)) \<mapsto> t)\<rparr>)"
  by (simp_all add: setFontSize_def Let_def)

subsection \<open>Construction\<close>

lemma loadPreferences_frame [simp]:
  "localStorage (loadPreferences this w) = localStorage w"
  "loading (loadPreferences this w) = loading w"
  "pending_setups (loadPreferences this w) = pending_setups w"
  "querySelector (loadPreferences this w) = querySelector w"
  "elements (loadPreferences this w) = elements w"
  "attributes (loadPreferences this w) = attributes w"
  "matchMedia (loadPreferences this w) = matchMedia w"
  "mediaListeners (loadPreferences this w) = mediaListeners w"
  "next_instance (loadPreferences this w) = next_instance w"
  "calls (loadPreferences this w) = calls w"
  "instances (loadPreferences this w) = (instances w)(this := (instances w this)
      \<lparr>currentTheme :=
         Some (js_or (getStoredValue this Theme w) (defaultTheme (config (instances w this)))),
       currentFont :=
         Some (js_or (getStoredValue this Font w) (defaultFont (config (instances w this)))),
       currentFontSize :=
         Some (js_or (getStoredValue this FontSize w)
                 (defaultFontSize (config (instances w this))))\<rparr>)"
  by (simp_all add: loadPreferences_def Let_def)

lemma setupEventListeners_frame [simp]:
  "localStorage (setupEventListeners this w) = localStorage w"
  "loading (setupEventListeners this w) = loading w"
  "pending_setups (setupEventListeners this w) = pending_setups w"
  "querySelector (setupEventListeners this w) = querySelector w"
  "attributes (setupEventListeners this w) = attributes w"
  "matchMedia (setupEventListeners this w) = matchMedia w"
  "mediaListeners (setupEventListeners this w) = mediaListeners w"
  "instances (setupEventListeners this w) = instances w"
  "next_instance (setupEventListeners this w) = next_instance w"
  "calls (setupEventListeners this w) = calls w"
  by (simp_all add: setupEventListeners_def Let_def split: option.splits)

lemma setupSystemThemeListener_frame [simp]:
  "localStorage (setupSystemThemeListener this w) = localStorage w"
  "loading (setupSystemThemeListener this w) = loading w"
  "pending_setups (setupSystemThemeListener this w) = pending_setups w"
  "querySelector (setupSystemThemeListener this w) = querySelector w"
  "elements (setupSystemThemeListener this w) = elements w"
  "attributes (setupSystemThemeListener this w) = attributes w"
  "matchMedia (setupSystemThemeListener this w) = matchMedia w"
  "instances (setupSystemThemeListener this w) = instances w"
  "next_instance (setupSystemThemeListener this w) = next_instance w"
  "calls (setupSystemThemeListener this w) = calls w"
  "mediaListeners (setupSystemThemeListener this w) =
     (if matchMedia w then mediaListeners w @ [SystemThemeArrow this] else mediaListeners w)"
  by (simp_all add: setupSystemThemeListener_def)

lemma applySettings_frame [simp]:
  "localStorage (applySettings this w) = localStorage w"
  "loading (applySettings this w) = loading w"
  "pending_setups (applySettings this w) = pending_setups w"
  "querySelector (applySettings this w) = querySelector w"
  "matchMedia (applySettings this w) = matchMedia w"
  "mediaListeners (applySettings this w) = mediaListeners w"
  "instances (applySettings this w) = instances w"
  "next_instance (applySettings this w) = next_instance w"
  "calls (applySettings this w) = calls w @
     [SetAttribute ''data-theme'' (js_string (currentTheme (instances w this))),
      SetAttribute ''data-font'' (js_string (currentFont (instances w this))),
      SetAttribute ''data-font-size'' (js_string (currentFontSize (instances w this)))]"
  by (simp_all add: applySettings_def Let_def)

lemma setup_plugin_frame [simp]:
  "localStorage (setup_plugin this w) = localStorage w"
  "loading (setup_plugin this w) = loading w"
  "pending_setups (setup_plugin this w) = pending_setups w"
  "querySelector (setup_plugin this w) = querySelector w"
  "matchMedia (setup_plugin this w) = matchMedia w"
  "next_instance (setup_plugin this w) = next_instance w"
  "mediaListeners (setup_plugin this w) =
     (if autoDetectSystemTheme (config (instances w this)) \<and> matchMedia w
      then mediaListeners w @ [SystemThemeArrow this] else mediaListeners w)"
  by (simp_all add: setup_plugin_def Let_def)

lemma setup_plugin_instances [simp]:
  "instances (setup_plugin this w) = (instances w)(this := (instances w this)
      \<lparr>themeSelectorEl := querySelector w (themeSelector (config (instances w this))),
       fontSelectorEl := querySelector w (fontSelector (config (instances w this))),
       fontSizeSelectorEl := querySelector w (fontSizeSelector (config (instances w this))),
       currentTheme :=
         Some (js_or (getStoredValue this Theme w) (defaultTheme (config (instances w this)))),
       currentFont :=
         Some (js_or (getStoredValue this Font w) (defaultFont (config (instances w this)))),
       currentFontSize :=
         Some (js_or (getStoredValue this FontSize w)
                 (defaultFontSize (config (instances w this))))\<rparr>)"
  by (simp add: setup_plugin_def Let_def getStoredValue_def)

text \<open>The constructor, in both branches of \<open>init\<close>.\<close>

lemma constructor_fst [simp]: "fst (constructor opts w) = next_instance w"
  by (simp add: constructor_def Let_def)

lemma constructor_frame [simp]:
  "localStorage (snd (constructor opts w)) = localStorage w"
  "loading (snd (constructor opts w)) = loading w"
  "querySelector (snd (constructor opts w)) = querySelector w"
  "matchMedia (snd (constructor opts w)) = matchMedia w"
  "next_instance (snd (constructor opts w)) = Suc (next_instance w)"
  "pending_setups (snd (constructor opts w)) =
     (if loading w then pending_setups w @ [next_instance w] else pending_setups w)"
  "mediaListeners (snd (constructor opts w)) =
     (if \<not> loading w \<and> autoDetectSystemTheme (mk_config opts) \<and> matchMedia w
      then mediaListeners w @ [SystemThemeArrow (next_instance w)] else mediaListeners w)"
  by (simp_all add: constructor_def init_def Let_def)

lemma constructor_keys [simp]:
  "config (instances (snd (constructor opts w)) (next_instance w)) = mk_config opts"
  "storageKeys (instances (snd (constructor opts w)) (next_instance w)) =
     mk_storageKeys (mk_config opts)"
  by (simp_all add: constructor_def init_def Let_def)

lemma constructor_others:
  "i \<noteq> next_instance w \<Longrightarrow> instances (snd (constructor opts w)) i = instances w i"
  by (simp add: constructor_def init_def Let_def)

lemma constructor_instance:
  "\<not> loading w \<Longrightarrow>
   instances (snd (constructor opts w)) (next_instance w) =
     \<lparr>config = mk_config opts,
      storageKeys = mk_storageKeys (mk_config opts),
      themeSelectorEl = querySelector w (themeSelector (mk_config opts)),
      fontSelectorEl = querySelector w (fontSelector (mk_config opts)),
      fontSizeSelectorEl = querySelector w (fontSizeSelector (mk_config opts)),
      currentTheme = Some
        (js_or (case getItem (localStorage w) (theme_key (mk_storageKeys (mk_config opts))) of
                  Inl _ \<Rightarrow> None | Inr r \<Rightarrow> r) (defaultTheme (mk_config opts))),
      currentFont = Some
        (js_or (case getItem (localStorage w) (font_key (mk_storageKeys (mk_config opts))) of
                  Inl _ \<Rightarrow> None | Inr r \<Rightarrow> r) (defaultFont (mk_config opts))),
      currentFontSize = Some
        (js_or (case getItem (localStorage w) (fontSize_key (mk_storageKeys (mk_config opts))) of
                  Inl _ \<Rightarrow> None | Inr r \<Rightarrow> r) (defaultFontSize (mk_config opts)))\<rparr>"
  by (simp add: constructor_def init_def Let_def getStoredValue_def)

lemma constructor_instance_loading:
  "loading w \<Longrightarrow>
   instances (snd (constructor opts w)) (next_instance w) =
     \<lparr>config = mk_config opts,
      storageKeys = mk_storageKeys (mk_config opts),
      themeSelectorEl = None, fontSelectorEl = None, fontSizeSelectorEl = None,
      currentTheme = None, currentFont = None, currentFontSize = None\<rparr>"
  by (simp add: constructor_def init_def Let_def)

text \<open>
  When the document has been parsed, the waiting instances are set up one after the
  other. A setup reads the storage and does not write it, and it assigns only to its own
  instance.
\<close>

lemma fold_setup_plugin_frame:
  "localStorage (fold setup_plugin ps w) = localStorage w"
  "i \<notin> set ps \<Longrightarrow> instances (fold setup_plugin ps w) i = instances w i"
  by (induction ps arbitrary: w) simp_all

lemma domContentLoaded_last:
  "pending_setups w = ps @ [this] \<Longrightarrow>
   domContentLoaded w =
     setup_plugin this (fold setup_plugin ps (w\<lparr>loading := False, pending_setups := []\<rparr>))"
  by (simp add: domContentLoaded_def)

lemma setup_plugin_current:
  "getDimension d this (setup_plugin this w) =
     Some (js_or (case getItem (localStorage w) (storageKey (storageKeys (instances w this)) d) of
                    Inl _ \<Rightarrow> None | Inr r \<Rightarrow> r)
             (defaultOf d (config (instances w this))))"
  by (cases d) (simp_all add: getTheme_def getFont_def getFontSize_def getStoredValue_def)

text \<open>What \<open>a || b\<close> makes of a read: the stored string when there is a non-empty one.\<close>

lemma js_or_read:
  "(\<forall>v. r = Inr (Some v) \<and> v \<noteq> [] \<longrightarrow>
      js_or (case r of Inl (e::exn) \<Rightarrow> None | Inr x \<Rightarrow> x) dflt = v)
   \<and> ((\<forall>v. r = Inr (Some v) \<longrightarrow> v = []) \<longrightarrow>
      js_or (case r of Inl (e::exn) \<Rightarrow> None | Inr x \<Rightarrow> x) dflt = dflt)"
proof (cases r)
  case (Inl e)
  then show ?thesis by simp
next
  case (Inr x)
  then show ?thesis by (cases x) simp_all
qed

subsection \<open>The controls\<close>

lemma setupEventListeners_elements:
  "elements (setupEventListeners this w) n =
     (elements w n)\<lparr>listeners := listeners (elements w n)
        @ (if themeSelectorEl (instances w this) = Some n
              \<and> ThemeChangeArrow this \<notin> set (listeners (elements w n))
           then [ThemeChangeArrow this] else [])
        @ (if fontSelectorEl (instances w this) = Some n
              \<and> FontChangeArrow this \<notin> set (listeners (elements w n))
           then [FontChangeArrow this] else [])
        @ (if fontSizeSelectorEl (instances w this) = Some n
              \<and> FontSizeChangeArrow this \<notin> set (listeners (elements w n))
           then [FontSizeChangeArrow this] else [])\<rparr>"
  by (simp add: setupEventListeners_def Let_def split: option.splits)

lemma updateSelector_elements_cong:
  "elements w1 = elements w2 \<Longrightarrow>
   elements (updateSelector sel v w1) = elements (updateSelector sel v w2)"
  by (rule ext) simp

lemma applySettings_elements:
  "elements (applySettings this w) =
     elements
       (updateSelector (fontSizeSelectorEl (instances w this))
          (js_string (currentFontSize (instances w this)))
          (updateSelector (fontSelectorEl (instances w this))
             (js_string (currentFont (instances w this)))
             (updateSelector (themeSelectorEl (instances w this))
                (js_string (currentTheme (instances w this))) w)))"
  by (simp add: applySettings_def Let_def del: updateSelector_elements;
      intro updateSelector_elements_cong; simp)

lemma setup_plugin_elements:
  "elements (setup_plugin this w) =
     elements (applySettings this
       (setupEventListeners this (loadPreferences this
          (w\<lparr>instances := (instances w)(this := (instances w this)
             \<lparr>themeSelectorEl := querySelector w (themeSelector (config (instances w this))),
              fontSelectorEl := querySelector w (fontSelector (config (instances w this))),
              fontSizeSelectorEl :=
                querySelector w (fontSizeSelector (config (instances w this)))\<rparr>)\<rparr>))))"
  by (simp add: setup_plugin_def Let_def applySettings_elements del: updateSelector_elements;
      intro impI updateSelector_elements_cong; simp)

subsection \<open>The example pages\<close>

lemma mk_config_no_options:
  "mk_config no_options =
     \<lparr>themeSelector = ''#theme-toggle'', fontSelector = ''#font-toggle'',
      fontSizeSelector = ''#font-size-toggle'', storagePrefix = ''theme-font-toggle'',
      defaultTheme = ''light'', defaultFont = ''system'', defaultFontSize = ''medium'',
      autoDetectSystemTheme = True\<rparr>"
  by (simp add: mk_config_def no_options_def)

lemma demo_page_fields:
  "next_instance demo_page = 0"
  "\<not> loading demo_page"
  "pending_setups demo_page = []"
  "matchMedia demo_page"
  "mediaListeners demo_page = []"
  "calls demo_page = []"
  "querySelector demo_page ''#theme-toggle'' = Some 1"
  "querySelector demo_page ''#font-toggle'' = Some 2"
  "querySelector demo_page ''#font-size-toggle'' = Some 3"
  "elements demo_page (Suc 0) =
     \<lparr>el_value = ''light'', el_options = Some [''light'', ''dark'', ''auto''], listeners = []\<rparr>"
  "elements demo_page 2 =
     \<lparr>el_value = ''system'',
      el_options = Some [''system'', ''serif'', ''sans-serif'', ''monospace'', ''cursive''],
      listeners = []\<rparr>"
  "elements demo_page 3 =
     \<lparr>el_value = ''small'', el_options = Some [''small'', ''medium'', ''large'', ''extra-large''],
      listeners = []\<rparr>"
  "items (localStorage demo_page) k = None"
  "\<not> getItem_throws (localStorage demo_page) k"
  "\<not> setItem_throws (localStorage demo_page) k v"
  by (simp_all add: demo_page_def)

lemma demo_blocked_fields:
  "next_instance demo_blocked = 0"
  "\<not> loading demo_blocked"
  "matchMedia demo_blocked"
  "mediaListeners demo_blocked = []"
  "querySelector demo_blocked = querySelector demo_page"
  "elements demo_blocked = elements demo_page"
  "items (localStorage demo_blocked) k = None"
  "getItem_throws (localStorage demo_blocked) k"
  "setItem_throws (localStorage demo_blocked) k v"
  by (simp_all add: demo_blocked_def demo_page_def)

lemma demo_stored_fields:
  "next_instance demo_stored = 0"
  "\<not> loading demo_stored"
  "matchMedia demo_stored"
  "mediaListeners demo_stored = []"
  "querySelector demo_stored = querySelector demo_page"
  "elements demo_stored = elements demo_page"
  "items (localStorage demo_stored) ''theme-font-toggle-theme'' = Some ''auto''"
  "items (localStorage demo_stored) ''theme-font-toggle-font'' = Some []"
  "items (localStorage demo_stored) ''theme-font-toggle-font-size'' = None"
  "\<not> getItem_throws (localStorage demo_stored) k"
  "\<not> setItem_throws (localStorage demo_stored) k v"
  by (simp_all add: demo_stored_def demo_page_def)

lemma demo_loading_fields:
  "next_instance demo_loading = 0"
  "loading demo_loading"
  "pending_setups demo_loading = []"
  "localStorage demo_loading = localStorage demo_stored"
  by (simp_all add: demo_loading_def demo_stored_def demo_page_def)

lemma demo_instance:
  "instances demo 0 =
     \<lparr>config = mk_config no_options,
      storageKeys = \<lparr>theme_key = ''theme-font-toggle-theme'', font_key = ''theme-font-toggle-font'',
                     fontSize_key = ''theme-font-toggle-font-size''\<rparr>,
      themeSelectorEl = Some 1, fontSelectorEl = Some 2, fontSizeSelectorEl = Some 3,
      currentTheme = Some ''light'', currentFont = Some ''system'',
      currentFontSize = Some ''medium''\<rparr>"
  using constructor_instance [of demo_page no_options]
  by (simp add: demo_def demo_page_fields mk_config_no_options mk_storageKeys_def getItem_def)

lemma demo_auto_instance:
  "instances demo_auto 0 =
     \<lparr>config = mk_config no_options,
      storageKeys = \<lparr>theme_key = ''theme-font-toggle-theme'', font_key = ''theme-font-toggle-font'',
                     fontSize_key = ''theme-font-toggle-font-size''\<rparr>,
      themeSelectorEl = Some 1, fontSelectorEl = Some 2, fontSizeSelectorEl = Some 3,
      currentTheme = Some ''auto'', currentFont = Some ''system'',
      currentFontSize = Some ''medium''\<rparr>"
  using constructor_instance [of demo_stored no_options]
  by (simp add: demo_auto_def demo_stored_fields demo_page_fields mk_config_no_options
      mk_storageKeys_def getItem_def)

lemma demo_offline_instance:
  "instances demo_offline 0 =
     \<lparr>config = mk_config no_options,
      storageKeys = \<lparr>theme_key = ''theme-font-toggle-theme'', font_key = ''theme-font-toggle-font'',
                     fontSize_key = ''theme-font-toggle-font-size''\<rparr>,
      themeSelectorEl = Some 1, fontSelectorEl = Some 2, fontSizeSelectorEl = Some 3,
      currentTheme = Some ''light'', currentFont = Some ''system'',
      currentFontSize = Some ''medium''\<rparr>"
  using constructor_instance [of demo_blocked no_options]
  by (simp add: demo_offline_def demo_blocked_fields demo_page_fields mk_config_no_options
      mk_storageKeys_def getItem_def)

lemma demo_early_instance:
  "instances demo_early 0 =
     \<lparr>config = mk_config no_options,
      storageKeys = \<lparr>theme_key = ''theme-font-toggle-theme'', font_key = ''theme-font-toggle-font'',
                     fontSize_key = ''theme-font-toggle-font-size''\<rparr>,
      themeSelectorEl = None, fontSelectorEl = None, fontSizeSelectorEl = None,
      currentTheme = None, currentFont = None, currentFontSize = None\<rparr>"
  using constructor_instance_loading [of demo_loading no_options]
  by (simp add: demo_early_def demo_loading_fields mk_config_no_options mk_storageKeys_def)

lemma demo_world_fields:
  "localStorage demo = localStorage demo_page"
  "localStorage demo_auto = localStorage demo_stored"
  "localStorage demo_offline = localStorage demo_blocked"
  "mediaListeners demo = [SystemThemeArrow 0]"
  "mediaListeners demo_auto = [SystemThemeArrow 0]"
  by (simp_all add: demo_def demo_auto_def demo_offline_def demo_page_fields demo_stored_fields
      demo_blocked_fields mk_config_no_options)

lemma demo_elements:
  "elements demo (Suc 0) =
     \<lparr>el_value = ''light'', el_options = Some [''light'', ''dark'', ''auto''],
      listeners = [ThemeChangeArrow 0]\<rparr>"
  "elements demo 2 =
     \<lparr>el_value = ''system'',
      el_options = Some [''system'', ''serif'', ''sans-serif'', ''monospace'', ''cursive''],
      listeners = [FontChangeArrow 0]\<rparr>"
  "elements demo 3 =
     \<lparr>el_value = ''medium'', el_options = Some [''small'', ''medium'', ''large'', ''extra-large''],
      listeners = [FontSizeChangeArrow 0]\<rparr>"
  by (simp_all add: demo_def constructor_def init_def Let_def setup_plugin_elements
      applySettings_elements setupEventListeners_elements demo_page_fields
      mk_config_no_options getStoredValue_def getItem_def mk_storageKeys_def
      assign_value_def accepts_def)

subsection \<open>Setting a dimension\<close>

lemmas getter_defs = getTheme_def getFont_def getFontSize_def getSettings_def

text \<open>
  C1 (as amended). For every dimension \<open>d\<close> and value \<open>v\<close>, after
  \<open>setDimension d v\<close>: \<open>getDimension d\<close> is \<open>v\<close>; \<open>v\<close> is stored under the key of
  \<open>d\<close> whenever \<open>localStorage.setItem\<close> does not throw for it, and a storage that
  throws is left as it was; the bound control, if there is one, reads \<open>v\<close> when it did
  already or can hold \<open>v\<close> (it keeps any string, or it is a \<open>select\<close> with an option of
  that value), and otherwise, a \<open>select\<close> without such an option, it reads the empty
  string; exactly one notification is added, the \<open>Changed\<close> event of \<open>d\<close> carrying the
  triple as it now is; the other two dimensions are unchanged.
\<close>

theorem setDimension_postcondition:
  "getDimension d this (setDimension d this v w) = Some v
   \<and> (\<not> setItem_throws (localStorage w) (storageKey (storageKeys (instances w this)) d) v \<longrightarrow>
        items (localStorage (setDimension d this v w))
          (storageKey (storageKeys (instances w this)) d) = Some v)
   \<and> (setItem_throws (localStorage w) (storageKey (storageKeys (instances w this)) d) v \<longrightarrow>
        localStorage (setDimension d this v w) = localStorage w)
   \<and> (\<forall>e. selectorEl d (instances w this) = Some e \<longrightarrow>
        (el_value (elements w e) = v \<or> accepts (elements w e) v \<longrightarrow>
           el_value (elements (setDimension d this v w) e) = v)
        \<and> (el_value (elements w e) \<noteq> v \<and> \<not> accepts (elements w e) v \<longrightarrow>
           el_value (elements (setDimension d this v w) e) = []))
   \<and> notifications (calls (setDimension d this v w)) =
        notifications (calls w) @ [(changedEvent d, getSettings this (setDimension d this v w))]
   \<and> (\<forall>d'. d' \<noteq> d \<longrightarrow>
        getDimension d' this (setDimension d this v w) = getDimension d' this w)"
proof (cases d)
  case Theme
  have "getDimension d' this (setTheme this v w) = getDimension d' this w" if "d' \<noteq> Theme" for d'
    using that by (cases d') (simp_all add: getter_defs)
  then show ?thesis
    using Theme by (simp add: getter_defs notifications_append)
next
  case Font
  have "getDimension d' this (setFont this v w) = getDimension d' this w" if "d' \<noteq> Font" for d'
    using that by (cases d') (simp_all add: getter_defs)
  then show ?thesis
    using Font by (simp add: getter_defs notifications_append)
next
  case FontSize
  have "getDimension d' this (setFontSize this v w) = getDimension d' this w"
    if "d' \<noteq> FontSize" for d'
    using that by (cases d') (simp_all add: getter_defs)
  then show ?thesis
    using FontSize by (simp add: getter_defs notifications_append)
qed

theorem setDimension_postcondition_witness:
  "\<not> setItem_throws (localStorage demo) (storageKey (storageKeys (instances demo 0)) Theme) ''dark''
   \<and> items (localStorage (setDimension Theme 0 ''dark'' demo)) ''theme-font-toggle-theme''
       = Some ''dark''
   \<and> selectorEl Theme (instances demo 0) = Some 1
   \<and> accepts (elements demo 1) ''dark''
   \<and> el_value (elements (setDimension Theme 0 ''dark'' demo) 1) = ''dark''
   \<and> el_value (elements demo 1) \<noteq> ''solarized''
   \<and> \<not> accepts (elements demo 1) ''solarized''
   \<and> el_value (elements (setDimension Theme 0 ''solarized'' demo) 1) = []
   \<and> Font \<noteq> Theme
   \<and> getDimension Font 0 (setDimension Theme 0 ''dark'' demo) = Some ''system''
   \<and> setItem_throws (localStorage demo_offline)
        (storageKey (storageKeys (instances demo_offline 0)) Theme) ''dark''
   \<and> localStorage (setDimension Theme 0 ''dark'' demo_offline) = localStorage demo_offline"
  using setDimension_postcondition [of Theme 0 "''dark''" demo]
    setDimension_postcondition [of Theme 0 "''solarized''" demo]
    setDimension_postcondition [of Theme 0 "''dark''" demo_offline]
  by (simp add: demo_instance demo_offline_instance demo_world_fields demo_page_fields
      demo_blocked_fields demo_elements getter_defs accepts_def)

text \<open>
  On a page whose storage throws on every write, \<open>setTheme('dark')\<close> completes and the
  theme is \<open>dark\<close> in memory, but nothing is stored under the theme key. And on the
  documentation page \<open>setTheme('solarized')\<close> makes the theme \<open>solarized\<close> in memory
  while the bound \<open>select\<close>, which has no such option, does not read \<open>solarized\<close>.
\<close>

theorem setDimension_counterexample:
  "getDimension Theme 0 (setDimension Theme 0 ''dark'' demo_offline) = Some ''dark''
   \<and> items (localStorage (setDimension Theme 0 ''dark'' demo_offline))
        (storageKey (storageKeys (instances demo_offline 0)) Theme) \<noteq> Some ''dark''
   \<and> getDimension Theme 0 (setDimension Theme 0 ''solarized'' demo) = Some ''solarized''
   \<and> selectorEl Theme (instances (setDimension Theme 0 ''solarized'' demo) 0) = Some 1
   \<and> el_value (elements (setDimension Theme 0 ''solarized'' demo) 1) \<noteq> ''solarized''"
  by (simp add: getter_defs demo_offline_instance demo_instance demo_world_fields
      demo_blocked_fields demo_elements accepts_def)

subsection \<open>The initial triple\<close>

lemma getSettings_dimensions:
  "getSettings i w =
     \<lparr>theme = getDimension Theme i w, font = getDimension Font i w,
      fontSize = getDimension FontSize i w\<rparr>"
  by (simp add: getter_defs)

lemma immediate_setup_current:
  assumes "\<not> loading w"
  shows "getDimension d (next_instance w) (snd (constructor opts w)) =
     Some (js_or (case getItem (localStorage w) (storageKey (mk_storageKeys (mk_config opts)) d) of
                    Inl _ \<Rightarrow> None | Inr r \<Rightarrow> r)
             (defaultOf d (mk_config opts)))"
  using assms by (cases d) (simp_all add: getter_defs constructor_instance)

lemma deferred_setup_current:
  assumes "loading w" and "next_instance w \<notin> set (pending_setups w)"
  shows "getDimension d (next_instance w)
           (domContentLoaded ((snd (constructor opts w))\<lparr>localStorage := st\<rparr>)) =
     Some (js_or (case getItem st (storageKey (mk_storageKeys (mk_config opts)) d) of
                    Inl _ \<Rightarrow> None | Inr r \<Rightarrow> r)
             (defaultOf d (mk_config opts)))"
proof -
  let ?w1 = "(snd (constructor opts w))\<lparr>localStorage := st\<rparr>"
  let ?x = "fold setup_plugin (pending_setups w) (?w1\<lparr>loading := False, pending_setups := []\<rparr>)"
  have pend: "pending_setups ?w1 = pending_setups w @ [next_instance w]"
    using assms(1) by simp
  have run: "domContentLoaded ?w1 = setup_plugin (next_instance w) ?x"
    using domContentLoaded_last [OF pend] .
  have store: "localStorage ?x = st"
    by (simp add: fold_setup_plugin_frame)
  have inst: "instances ?x (next_instance w) =
      instances (snd (constructor opts w)) (next_instance w)"
    using assms(2) by (simp add: fold_setup_plugin_frame)
  show ?thesis
    unfolding run setup_plugin_current store inst by simp
qed

lemma deferred_setup_undefined:
  "loading w \<Longrightarrow> getDimension d (next_instance w) (snd (constructor opts w)) = None"
  by (cases d) (simp_all add: getter_defs constructor_instance_loading)

text \<open>
  C2 (as amended). The initial triple is resolved when \<open>setup\<close> runs: each dimension is
  the stored string when \<open>localStorage.getItem\<close> yields a non-empty string for its key,
  and the configured default otherwise (the read threw, found nothing, or found the empty
  string); when every read throws, the triple is the three configured defaults. That is
  so at construction when the document is no longer loading. While the document is
  loading, the constructor returns with the three dimensions undefined, and the triple is
  resolved in the same way when \<open>DOMContentLoaded\<close> fires, from the storage \<open>st\<close> as it
  is then.
\<close>

theorem constructor_initial_triple:
  "(\<not> loading w \<longrightarrow>
      (\<forall>v. getItem (localStorage w) (storageKey (mk_storageKeys (mk_config opts)) d)
              = Inr (Some v) \<and> v \<noteq> [] \<longrightarrow>
         getDimension d (fst (constructor opts w)) (snd (constructor opts w)) = Some v)
      \<and> ((\<forall>v. getItem (localStorage w) (storageKey (mk_storageKeys (mk_config opts)) d)
                 = Inr (Some v) \<longrightarrow> v = []) \<longrightarrow>
         getDimension d (fst (constructor opts w)) (snd (constructor opts w))
           = Some (defaultOf d (mk_config opts)))
      \<and> ((\<forall>k. getItem (localStorage w) k = Inl StorageError) \<longrightarrow>
         getSettings (fst (constructor opts w)) (snd (constructor opts w)) =
           \<lparr>theme = Some (defaultTheme (mk_config opts)),
            font = Some (defaultFont (mk_config opts)),
            fontSize = Some (defaultFontSize (mk_config opts))\<rparr>))
   \<and> (loading w \<longrightarrow>
      getSettings (fst (constructor opts w)) (snd (constructor opts w)) =
        \<lparr>theme = None, font = None, fontSize = None\<rparr>
      \<and> (next_instance w \<notin> set (pending_setups w) \<longrightarrow>
         (\<forall>v. getItem st (storageKey (mk_storageKeys (mk_config opts)) d) = Inr (Some v)
               \<and> v \<noteq> [] \<longrightarrow>
            getDimension d (fst (constructor opts w))
              (domContentLoaded ((snd (constructor opts w))\<lparr>localStorage := st\<rparr>)) = Some v)
         \<and> ((\<forall>v. getItem st (storageKey (mk_storageKeys (mk_config opts)) d) = Inr (Some v)
                  \<longrightarrow> v = []) \<longrightarrow>
            getDimension d (fst (constructor opts w))
              (domContentLoaded ((snd (constructor opts w))\<lparr>localStorage := st\<rparr>))
              = Some (defaultOf d (mk_config opts)))
         \<and> ((\<forall>k. getItem st k = Inl StorageError) \<longrightarrow>
            getSettings (fst (constructor opts w))
              (domContentLoaded ((snd (constructor opts w))\<lparr>localStorage := st\<rparr>)) =
              \<lparr>theme = Some (defaultTheme (mk_config opts)),
               font = Some (defaultFont (mk_config opts)),
               fontSize = Some (defaultFontSize (mk_config opts))\<rparr>)))"
proof -
  let ?i = "next_instance w"
  let ?w = "snd (constructor opts w)"
  let ?late = "domContentLoaded (?w\<lparr>localStorage := st\<rparr>)"
  let ?k = "storageKey (mk_storageKeys (mk_config opts)) d"
  have now: "(\<forall>v. getItem (localStorage w) ?k = Inr (Some v) \<and> v \<noteq> [] \<longrightarrow>
                 getDimension d ?i ?w = Some v)
      \<and> ((\<forall>v. getItem (localStorage w) ?k = Inr (Some v) \<longrightarrow> v = []) \<longrightarrow>
                 getDimension d ?i ?w = Some (defaultOf d (mk_config opts)))"
    if "\<not> loading w"
    using js_or_read [of "getItem (localStorage w) ?k" "defaultOf d (mk_config opts)"]
    by (simp add: immediate_setup_current [OF that])
  have now_blocked: "getSettings ?i ?w =
        \<lparr>theme = Some (defaultTheme (mk_config opts)),
         font = Some (defaultFont (mk_config opts)),
         fontSize = Some (defaultFontSize (mk_config opts))\<rparr>"
    if "\<not> loading w" "\<forall>k. getItem (localStorage w) k = Inl StorageError"
    using that(2) by (simp add: getSettings_dimensions immediate_setup_current [OF that(1)])
  have undefined: "getSettings ?i ?w = \<lparr>theme = None, font = None, fontSize = None\<rparr>"
    if "loading w"
    by (simp add: getSettings_dimensions deferred_setup_undefined [OF that])
  have late: "(\<forall>v. getItem st ?k = Inr (Some v) \<and> v \<noteq> [] \<longrightarrow> getDimension d ?i ?late = Some v)
      \<and> ((\<forall>v. getItem st ?k = Inr (Some v) \<longrightarrow> v = []) \<longrightarrow>
                 getDimension d ?i ?late = Some (defaultOf d (mk_config opts)))"
    if "loading w" "?i \<notin> set (pending_setups w)"
    using js_or_read [of "getItem st ?k" "defaultOf d (mk_config opts)"]
    by (simp add: deferred_setup_current [OF that])
  have late_blocked: "getSettings ?i ?late =
        \<lparr>theme = Some (defaultTheme (mk_config opts)),
         font = Some (defaultFont (mk_config opts)),
         fontSize = Some (defaultFontSize (mk_config opts))\<rparr>"
    if "loading w" "?i \<notin> set (pending_setups w)" "\<forall>k. getItem st k = Inl StorageError"
    using that(3) by (simp add: getSettings_dimensions deferred_setup_current [OF that(1,2)])
  show ?thesis
    unfolding constructor_fst
    using now now_blocked undefined late late_blocked by blast
qed

theorem constructor_initial_triple_witness:
  "\<not> loading demo_stored
   \<and> getItem (localStorage demo_stored) (storageKey (mk_storageKeys (mk_config no_options)) Theme)
     = Inr (Some ''auto'')
   \<and> getDimension Theme (fst (constructor no_options demo_stored))
        (snd (constructor no_options demo_stored)) = Some ''auto''
   \<and> getItem (localStorage demo_stored) (storageKey (mk_storageKeys (mk_config no_options)) Font)
       = Inr (Some [])
   \<and> getDimension Font (fst (constructor no_options demo_stored))
        (snd (constructor no_options demo_stored)) = Some ''system''
   \<and> getItem (localStorage demo_blocked) ''theme-font-toggle-theme'' = Inl StorageError
   \<and> getSettings (fst (constructor no_options demo_blocked))
        (snd (constructor no_options demo_blocked))
       = \<lparr>theme = Some ''light'', font = Some ''system'', fontSize = Some ''medium''\<rparr>
   \<and> loading demo_loading
   \<and> next_instance demo_loading \<notin> set (pending_setups demo_loading)
   \<and> getSettings (fst (constructor no_options demo_loading))
        (snd (constructor no_options demo_loading))
       = \<lparr>theme = None, font = None, fontSize = None\<rparr>
   \<and> getDimension Theme (fst (constructor no_options demo_loading))
        (domContentLoaded ((snd (constructor no_options demo_loading))
           \<lparr>localStorage := localStorage demo_stored\<rparr>)) = Some ''auto''
   \<and> getDimension Font (fst (constructor no_options demo_loading))
        (domContentLoaded ((snd (constructor no_options demo_loading))
           \<lparr>localStorage := localStorage demo_stored\<rparr>)) = Some ''system''
   \<and> getSettings (fst (constructor no_options demo_loading))
        (domContentLoaded ((snd (constructor no_options demo_loading))
           \<lparr>localStorage := localStorage demo_blocked\<rparr>))
       = \<lparr>theme = Some ''light'', font = Some ''system'', fontSize = Some ''medium''\<rparr>"
proof -
  have stored_theme:
    "getItem (localStorage demo_stored) (storageKey (mk_storageKeys (mk_config no_options)) Theme)
       = Inr (Some ''auto'')"
    by (simp add: getItem_def mk_storageKeys_def mk_config_no_options demo_stored_fields)
  have stored_font:
    "getItem (localStorage demo_stored) (storageKey (mk_storageKeys (mk_config no_options)) Font)
       = Inr (Some [])"
    by (simp add: getItem_def mk_storageKeys_def mk_config_no_options demo_stored_fields)
  have blocked: "\<forall>k. getItem (localStorage demo_blocked) k = Inl StorageError"
    by (simp add: getItem_def demo_blocked_fields)
  have ready: "\<not> loading demo_stored" "\<not> loading demo_blocked"
    by (simp_all add: demo_stored_fields demo_blocked_fields)
  have early: "loading demo_loading" "next_instance demo_loading \<notin> set (pending_setups demo_loading)"
    by (simp_all add: demo_loading_fields)
  have "getDimension Theme (fst (constructor no_options demo_stored))
          (snd (constructor no_options demo_stored)) = Some ''auto''"
    using constructor_initial_triple [where w = demo_stored and opts = no_options and d = Theme]
      stored_theme ready by simp
  moreover have "getDimension Font (fst (constructor no_options demo_stored))
          (snd (constructor no_options demo_stored)) = Some (defaultOf Font (mk_config no_options))"
    using constructor_initial_triple [where w = demo_stored and opts = no_options and d = Font]
      stored_font ready by simp
  moreover have "getSettings (fst (constructor no_options demo_blocked))
          (snd (constructor no_options demo_blocked))
       = \<lparr>theme = Some (defaultTheme (mk_config no_options)),
          font = Some (defaultFont (mk_config no_options)),
          fontSize = Some (defaultFontSize (mk_config no_options))\<rparr>"
    using constructor_initial_triple [where w = demo_blocked and opts = no_options and d = Theme]
      blocked ready by simp
  moreover have "getSettings (fst (constructor no_options demo_loading))
        (snd (constructor no_options demo_loading))
       = \<lparr>theme = None, font = None, fontSize = None\<rparr>"
    using constructor_initial_triple [where w = demo_loading and opts = no_options and d = Theme]
      early by simp
  moreover have "getDimension Theme (fst (constructor no_options demo_loading))
        (domContentLoaded ((snd (constructor no_options demo_loading))
           \<lparr>localStorage := localStorage demo_stored\<rparr>)) = Some ''auto''"
    using constructor_initial_triple [where w = demo_loading and opts = no_options and d = Theme
        and st = "localStorage demo_stored"]
      stored_theme early by simp
  moreover have "getDimension Font (fst (constructor no_options demo_loading))
        (domContentLoaded ((snd (constructor no_options demo_loading))
           \<lparr>localStorage := localStorage demo_stored\<rparr>))
      = Some (defaultOf Font (mk_config no_options))"
    using constructor_initial_triple [where w = demo_loading and opts = no_options and d = Font
        and st = "localStorage demo_stored"]
      stored_font early by simp
  moreover have "getSettings (fst (constructor no_options demo_loading))
        (domContentLoaded ((snd (constructor no_options demo_loading))
           \<lparr>localStorage := localStorage demo_blocked\<rparr>))
       = \<lparr>theme = Some (defaultTheme (mk_config no_options)),
          font = Some (defaultFont (mk_config no_options)),
          fontSize = Some (defaultFontSize (mk_config no_options))\<rparr>"
    using constructor_initial_triple [where w = demo_loading and opts = no_options and d = Theme
        and st = "localStorage demo_blocked"]
      blocked early by simp
  ultimately show ?thesis
    using stored_theme stored_font blocked ready early by (simp add: mk_config_no_options)
qed

text \<open>
  On the documentation page while it is loading, with a theme and an empty font stored,
  the constructor returns with the theme not the stored one, the font not the default,
  and all three dimensions undefined.
\<close>

theorem constructor_loading_counterexample:
  "getItem (localStorage demo_loading) (storageKey (mk_storageKeys (mk_config no_options)) Theme)
     = Inr (Some ''auto'')
   \<and> getDimension Theme (fst (constructor no_options demo_loading))
        (snd (constructor no_options demo_loading)) \<noteq> Some ''auto''
   \<and> getItem (localStorage demo_loading) (storageKey (mk_storageKeys (mk_config no_options)) Font)
       = Inr (Some [])
   \<and> getDimension Font (fst (constructor no_options demo_loading))
        (snd (constructor no_options demo_loading))
       \<noteq> Some (defaultOf Font (mk_config no_options))
   \<and> getSettings (fst (constructor no_options demo_loading))
        (snd (constructor no_options demo_loading))
       = \<lparr>theme = None, font = None, fontSize = None\<rparr>"
  using constructor_instance_loading [of demo_loading no_options]
  by (simp add: getter_defs demo_loading_fields demo_stored_fields getItem_def
      mk_storageKeys_def mk_config_no_options)

subsection \<open>Reset\<close>

text \<open>
  C3. Whatever the configuration and the state, after \<open>reset\<close> the settings are the
  three configured defaults, and exactly four notifications have been added, in this
  order: \<open>themeChanged\<close>, \<open>fontChanged\<close>, \<open>fontSizeChanged\<close>, \<open>reset\<close>. Each carries the
  triple at the moment it is emitted.
\<close>

theorem reset_defaults_and_notifications:
  "getSettings this (reset this w) =
     \<lparr>theme = Some (defaultTheme (config (instances w this))),
      font = Some (defaultFont (config (instances w this))),
      fontSize = Some (defaultFontSize (config (instances w this)))\<rparr>
   \<and> notifications (calls (reset this w)) = notifications (calls w) @
       [(''themeFontToggle:themeChanged'',
           \<lparr>theme = Some (defaultTheme (config (instances w this))),
            font = currentFont (instances w this),
            fontSize = currentFontSize (instances w this)\<rparr>),
        (''themeFontToggle:fontChanged'',
           \<lparr>theme = Some (defaultTheme (config (instances w this))),
            font = Some (defaultFont (config (instances w this))),
            fontSize = currentFontSize (instances w this)\<rparr>),
        (''themeFontToggle:fontSizeChanged'',
           \<lparr>theme = Some (defaultTheme (config (instances w this))),
            font = Some (defaultFont (config (instances w this))),
            fontSize = Some (defaultFontSize (config (instances w this)))\<rparr>),
        (''themeFontToggle:reset'',
           \<lparr>theme = Some (defaultTheme (config (instances w this))),
            font = Some (defaultFont (config (instances w this))),
            fontSize = Some (defaultFontSize (config (instances w this)))\<rparr>)]"
  by (simp add: reset_def Let_def getSettings_def notifications_append)

subsection \<open>System theme\<close>

text \<open>
  C4. \<open>setup\<close> subscribes the controller to the media query when
  \<open>autoDetectSystemTheme\<close> is on and \<open>window.matchMedia\<close> exists (\<open>setup_plugin_frame\<close>).
  When the signal fires at a subscribed controller, the theme is applied again if and only
  if the current theme is exactly \<open>auto\<close>: then the one call made is
  \<open>setAttribute('data-theme', 'auto')\<close>, and otherwise the page is as it was. In both
  cases the font and font size attributes, the instances, the storage and the controls
  are untouched and no notification is emitted.
\<close>

theorem systemThemeChange_reapplies_theme_only:
  assumes "mediaListeners w = [SystemThemeArrow this]"
  shows "(getTheme this w = Some ''auto'' \<longrightarrow>
            calls (systemThemeChange w) = calls w @ [SetAttribute ''data-theme'' ''auto'']
            \<and> attributes (systemThemeChange w) ''data-theme'' = Some ''auto'')
         \<and> (getTheme this w \<noteq> Some ''auto'' \<longrightarrow> systemThemeChange w = w)
         \<and> attributes (systemThemeChange w) ''data-font'' = attributes w ''data-font''
         \<and> attributes (systemThemeChange w) ''data-font-size'' = attributes w ''data-font-size''
         \<and> notifications (calls (systemThemeChange w)) = notifications (calls w)
         \<and> instances (systemThemeChange w) = instances w
         \<and> localStorage (systemThemeChange w) = localStorage w
         \<and> elements (systemThemeChange w) = elements w"
  using assms by (simp add: systemThemeChange_def getTheme_def notifications_append)

theorem systemThemeChange_reapplies_theme_only_witness:
  "mediaListeners demo_auto = [SystemThemeArrow 0]
   \<and> getTheme 0 demo_auto = Some ''auto''
   \<and> calls (systemThemeChange demo_auto) = calls demo_auto @ [SetAttribute ''data-theme'' ''auto'']
   \<and> notifications (calls (systemThemeChange demo_auto)) = notifications (calls demo_auto)
   \<and> mediaListeners demo = [SystemThemeArrow 0]
   \<and> getTheme 0 demo \<noteq> Some ''auto''
   \<and> systemThemeChange demo = demo"
  using systemThemeChange_reapplies_theme_only [of demo_auto 0]
    systemThemeChange_reapplies_theme_only [of demo 0]
  by (simp add: demo_world_fields demo_auto_instance demo_instance getTheme_def
      notifications_append)

subsection \<open>Storage keys\<close>

text \<open>
  C7 (as amended). For every configured prefix \<open>p\<close> the three keys of a constructed
  controller are \<open>p-theme\<close>, \<open>p-font\<close> and \<open>p-font-size\<close>; the prefix is the option
  given, or \<open>theme-font-toggle\<close>; the keys never change afterwards, and a setter writes
  under the key of its dimension.
\<close>

theorem storageKeys_of_prefix:
  "storageKeys (instances (snd (constructor opts w)) (fst (constructor opts w))) =
     \<lparr>theme_key = storagePrefix (mk_config opts) @ ''-theme'',
      font_key = storagePrefix (mk_config opts) @ ''-font'',
      fontSize_key = storagePrefix (mk_config opts) @ ''-font-size''\<rparr>
   \<and> storagePrefix (mk_config (opts\<lparr>opt_storagePrefix := Some p\<rparr>)) = p
   \<and> storagePrefix (mk_config (opts\<lparr>opt_storagePrefix := None\<rparr>)) = ''theme-font-toggle''
   \<and> storageKeys (instances (setDimension d this v w) i) = storageKeys (instances w i)
   \<and> SetItem (storageKey (storageKeys (instances w this)) d) v
        \<in> set (calls (setDimension d this v w))"
  by (cases d) (simp_all add: mk_storageKeys_def mk_config_def)

text \<open>With the default prefix, the font size key ends in \<open>-font-size\<close>, not \<open>-fontSize\<close>.\<close>

theorem storageKeys_fontSize_counterexample:
  "fontSize_key (storageKeys (instances demo 0)) = ''theme-font-toggle-font-size''
   \<and> fontSize_key (storageKeys (instances demo 0)) \<noteq> ''theme-font-toggle'' @ ''-fontSize''"
  by (simp add: demo_instance)

subsection \<open>Round trip\<close>

lemma demo_reloading_fields:
  "next_instance demo_reloading = 0"
  "loading demo_reloading"
  "pending_setups demo_reloading = []"
  "localStorage demo_reloading = localStorage (setTheme 0 ''dark'' demo)"
  by (simp_all add: demo_reloading_def demo_loading_def demo_stored_def demo_page_def)

text \<open>
  C8 (as amended). Let a controller with the configuration \<open>opts\<close> call
  \<open>setTheme('dark')\<close> while the storage neither throws on writing nor on reading the
  theme key, and let a fresh controller be constructed with the same options on a page
  that sees the storage as the call left it (the same page, or a reload). When that
  document is no longer loading, the fresh controller starts with the theme \<open>dark\<close>.
  While it is loading, the fresh controller's theme is undefined when the constructor
  returns, and it is \<open>dark\<close> once \<open>DOMContentLoaded\<close> has fired.
\<close>

theorem theme_round_trip:
  assumes "config (instances w this) = mk_config opts"
    and "storageKeys (instances w this) = mk_storageKeys (mk_config opts)"
    and "\<not> setItem_throws (localStorage w) (theme_key (mk_storageKeys (mk_config opts))) ''dark''"
    and "\<not> getItem_throws (localStorage w) (theme_key (mk_storageKeys (mk_config opts)))"
    and "localStorage w' = localStorage (setTheme this ''dark'' w)"
  shows "(\<not> loading w' \<longrightarrow>
            getTheme (fst (constructor opts w')) (snd (constructor opts w')) = Some ''dark'')
       \<and> (loading w' \<longrightarrow>
            getTheme (fst (constructor opts w')) (snd (constructor opts w')) = None
            \<and> (next_instance w' \<notin> set (pending_setups w') \<longrightarrow>
                getTheme (fst (constructor opts w')) (domContentLoaded (snd (constructor opts w')))
                  = Some ''dark''))"
proof -
  have stored: "getItem (localStorage w') (storageKey (mk_storageKeys (mk_config opts)) Theme)
      = Inr (Some ''dark'')"
    using assms by (simp add: getItem_def)
  have now: "getTheme (next_instance w') (snd (constructor opts w')) = Some ''dark''"
    if "\<not> loading w'"
    using immediate_setup_current [OF that, where d = Theme and opts = opts] stored by simp
  have early: "getTheme (next_instance w') (snd (constructor opts w')) = None" if "loading w'"
    using deferred_setup_undefined [OF that, where d = Theme and opts = opts] by simp
  have same: "(snd (constructor opts w'))\<lparr>localStorage := localStorage w'\<rparr>
      = snd (constructor opts w')"
    using constructor_frame(1) [of opts w'] by (metis world.surjective world.update_convs(1))
  have late: "getTheme (next_instance w') (domContentLoaded (snd (constructor opts w')))
      = Some ''dark''"
    if "loading w'" "next_instance w' \<notin> set (pending_setups w')"
    using deferred_setup_current [OF that, where d = Theme and opts = opts and st = "localStorage w'"] stored
    by (simp add: same)
  show ?thesis
    unfolding constructor_fst using now early late by blast
qed

theorem theme_round_trip_witness:
  "config (instances demo 0) = mk_config no_options
   \<and> storageKeys (instances demo 0) = mk_storageKeys (mk_config no_options)
   \<and> \<not> setItem_throws (localStorage demo)
         (theme_key (mk_storageKeys (mk_config no_options))) ''dark''
   \<and> \<not> getItem_throws (localStorage demo) (theme_key (mk_storageKeys (mk_config no_options)))
   \<and> \<not> loading (setTheme 0 ''dark'' demo)
   \<and> getTheme (fst (constructor no_options (setTheme 0 ''dark'' demo)))
        (snd (constructor no_options (setTheme 0 ''dark'' demo))) = Some ''dark''
   \<and> defaultTheme (mk_config no_options) \<noteq> ''dark''
   \<and> loading demo_reloading
   \<and> next_instance demo_reloading \<notin> set (pending_setups demo_reloading)
   \<and> getTheme (fst (constructor no_options demo_reloading))
        (snd (constructor no_options demo_reloading)) = None
   \<and> getTheme (fst (constructor no_options demo_reloading))
        (domContentLoaded (snd (constructor no_options demo_reloading))) = Some ''dark''"
proof -
  have pre:
    "config (instances demo 0) = mk_config no_options"
    "storageKeys (instances demo 0) = mk_storageKeys (mk_config no_options)"
    "\<not> setItem_throws (localStorage demo)
         (theme_key (mk_storageKeys (mk_config no_options))) ''dark''"
    "\<not> getItem_throws (localStorage demo) (theme_key (mk_storageKeys (mk_config no_options)))"
    by (simp_all add: demo_instance demo_world_fields demo_page_fields mk_storageKeys_def
        mk_config_no_options)
  have ready: "\<not> loading (setTheme 0 ''dark'' demo)"
    by (simp add: demo_def demo_page_fields)
  have early: "loading demo_reloading"
    "next_instance demo_reloading \<notin> set (pending_setups demo_reloading)"
    "localStorage demo_reloading = localStorage (setTheme 0 ''dark'' demo)"
    by (simp_all add: demo_reloading_fields)
  note same_page = theme_round_trip [OF pre refl]
  note reload = theme_round_trip [OF pre early(3)]
  show ?thesis
    using same_page reload pre ready early(1,2) by (simp add: mk_config_no_options)
qed

text \<open>
  On the documentation page loading again, with \<open>dark\<close> stored under the theme key, the
  fresh controller's theme is not \<open>dark\<close> when the constructor returns.
\<close>

theorem theme_round_trip_loading_counterexample:
  "items (localStorage demo_reloading) ''theme-font-toggle-theme'' = Some ''dark''
   \<and> \<not> getItem_throws (localStorage demo_reloading) ''theme-font-toggle-theme''
   \<and> getTheme (fst (constructor no_options demo_reloading))
        (snd (constructor no_options demo_reloading)) \<noteq> Some ''dark''"
  using constructor_instance_loading [of demo_reloading no_options]
  by (simp add: getter_defs demo_reloading_fields demo_instance demo_world_fields
      demo_page_fields)

subsection \<open>No change detection\<close>

text \<open>
  C10. A setter does not look at the current value. When \<open>getDimension d\<close> already is
  \<open>v\<close>, \<open>setDimension d v\<close> still calls \<open>localStorage.setItem\<close> with the key of \<open>d\<close>
  and \<open>v\<close> (the storage afterwards is what that call makes of it, as for any set), still
  sets the attribute and still emits the \<open>Changed\<close> event. And \<open>reset\<close> on a state that
  already equals the defaults makes all ten calls: three writes, three attributes and
  four events.
\<close>

theorem setDimension_no_change_detection:
  "(getDimension d this w = Some v \<longrightarrow>
      calls (setDimension d this v w) = calls w @
        [SetItem (storageKey (storageKeys (instances w this)) d) v,
         SetAttribute (attributeOf d) v,
         DispatchEvent (changedEvent d) (getSettings this w)]
      \<and> localStorage (setDimension d this v w) =
          (case setItem (localStorage w) (storageKey (storageKeys (instances w this)) d) v of
             Inl _ \<Rightarrow> localStorage w | Inr st \<Rightarrow> st))
   \<and> (getSettings this w =
         \<lparr>theme = Some (defaultTheme (config (instances w this))),
          font = Some (defaultFont (config (instances w this))),
          fontSize = Some (defaultFontSize (config (instances w this)))\<rparr> \<longrightarrow>
      calls (reset this w) = calls w @
        [SetItem (theme_key (storageKeys (instances w this)))
           (defaultTheme (config (instances w this))),
         SetAttribute ''data-theme'' (defaultTheme (config (instances w this))),
         DispatchEvent ''themeFontToggle:themeChanged'' (getSettings this w),
         SetItem (font_key (storageKeys (instances w this)))
           (defaultFont (config (instances w this))),
         SetAttribute ''data-font'' (defaultFont (config (instances w this))),
         DispatchEvent ''themeFontToggle:fontChanged'' (getSettings this w),
         SetItem (fontSize_key (storageKeys (instances w this)))
           (defaultFontSize (config (instances w this))),
         SetAttribute ''data-font-size'' (defaultFontSize (config (instances w this))),
         DispatchEvent ''themeFontToggle:fontSizeChanged'' (getSettings this w),
         DispatchEvent ''themeFontToggle:reset'' (getSettings this w)])"
proof -
  have one: "calls (setDimension d this v w) = calls w @
        [SetItem (storageKey (storageKeys (instances w this)) d) v,
         SetAttribute (attributeOf d) v,
         DispatchEvent (changedEvent d) (getSettings this w)]
      \<and> localStorage (setDimension d this v w) =
          (case setItem (localStorage w) (storageKey (storageKeys (instances w this)) d) v of
             Inl _ \<Rightarrow> localStorage w | Inr st \<Rightarrow> st)"
    if "getDimension d this w = Some v"
    using that by (cases d) (auto simp add: getter_defs setItem_def)
  have all: "calls (reset this w) = calls w @
        [SetItem (theme_key (storageKeys (instances w this)))
           (defaultTheme (config (instances w this))),
         SetAttribute ''data-theme'' (defaultTheme (config (instances w this))),
         DispatchEvent ''themeFontToggle:themeChanged'' (getSettings this w),
         SetItem (font_key (storageKeys (instances w this)))
           (defaultFont (config (instances w this))),
         SetAttribute ''data-font'' (defaultFont (config (instances w this))),
         DispatchEvent ''themeFontToggle:fontChanged'' (getSettings this w),
         SetItem (fontSize_key (storageKeys (instances w this)))
           (defaultFontSize (config (instances w this))),
         SetAttribute ''data-font-size'' (defaultFontSize (config (instances w this))),
         DispatchEvent ''themeFontToggle:fontSizeChanged'' (getSettings this w),
         DispatchEvent ''themeFontToggle:reset'' (getSettings this w)]"
    if "getSettings this w =
         \<lparr>theme = Some (defaultTheme (config (instances w this))),
          font = Some (defaultFont (config (instances w this))),
          fontSize = Some (defaultFontSize (config (instances w this)))\<rparr>"
  proof -
    from that have same:
      "currentTheme (instances w this) = Some (defaultTheme (config (instances w this)))"
      "currentFont (instances w this) = Some (defaultFont (config (instances w this)))"
      "currentFontSize (instances w this) = Some (defaultFontSize (config (instances w this)))"
      by (simp_all add: getSettings_def)
    show ?thesis
      by (simp add: reset_def Let_def getSettings_def same)
  qed
  show ?thesis using one all by blast
qed

theorem setDimension_no_change_detection_witness:
  "getDimension Theme 0 demo = Some ''light''
   \<and> calls (setDimension Theme 0 ''light'' demo) = calls demo @
       [SetItem ''theme-font-toggle-theme'' ''light'', SetAttribute ''data-theme'' ''light'',
        DispatchEvent ''themeFontToggle:themeChanged''
          \<lparr>theme = Some ''light'', font = Some ''system'', fontSize = Some ''medium''\<rparr>]
   \<and> items (localStorage demo) ''theme-font-toggle-theme'' = None
   \<and> items (localStorage (setDimension Theme 0 ''light'' demo)) ''theme-font-toggle-theme''
       = Some ''light''
   \<and> getSettings 0 demo
       = \<lparr>theme = Some ''light'', font = Some ''system'', fontSize = Some ''medium''\<rparr>
   \<and> length (calls (reset 0 demo)) = length (calls demo) + 10"
  using setDimension_no_change_detection [of Theme 0 demo "''light''"]
  by (simp add: demo_instance demo_world_fields demo_page_fields getter_defs
      mk_config_no_options setItem_def)

subsection \<open>Teardown\<close>

lemma destroy_frame [simp]:
  "localStorage (destroy this w) = localStorage w"
  "loading (destroy this w) = loading w"
  "pending_setups (destroy this w) = pending_setups w"
  "querySelector (destroy this w) = querySelector w"
  "attributes (destroy this w) = attributes w"
  "matchMedia (destroy this w) = matchMedia w"
  "mediaListeners (destroy this w) = mediaListeners w"
  "next_instance (destroy this w) = next_instance w"
  "instances (destroy this w) = (instances w)(this := (instances w this)
      \<lparr>themeSelectorEl := None, fontSelectorEl := None, fontSizeSelectorEl := None\<rparr>)"
  "calls (destroy this w) = calls w @
     [DispatchEvent ''themeFontToggle:destroyed'' (getSettings this w)]"
  by (simp_all add: destroy_def Let_def getSettings_def split: option.splits)

text \<open>
  The functions that \<open>destroy\<close> asks to remove are the three methods, so every other
  listener of every element is still registered afterwards.
\<close>

lemma destroy_keeps_arrows:
  assumes "l \<noteq> Method_setTheme" "l \<noteq> Method_setFont" "l \<noteq> Method_setFontSize"
  shows "(l \<in> set (listeners (elements (destroy this w) e))) =
         (l \<in> set (listeners (elements w e)))"
  using assms by (simp add: destroy_def Let_def split: option.splits)

lemma demo_destroyed_elements:
  "elements (destroy 0 demo) (Suc 0) =
     \<lparr>el_value = ''light'', el_options = Some [''light'', ''dark'', ''auto''],
      listeners = [ThemeChangeArrow 0]\<rparr>"
  by (simp add: destroy_def Let_def demo_instance demo_elements)

text \<open>
  C9 (the code departs from it). On the example page, after \<open>destroy\<close> the arrow
  function is still the \<open>change\<close> listener of the theme control and the media query
  listener is still subscribed; \<open>destroy\<close> did emit \<open>destroyed\<close> with the current triple.
  When the user then picks \<open>dark\<close> in the control, \<open>setTheme\<close> runs: the theme becomes
  \<open>dark\<close>, the storage is written, the attribute is set and \<open>themeChanged\<close> is emitted.
\<close>

theorem destroy_leaves_listeners_bound:
  "listeners (elements demo 1) = [ThemeChangeArrow 0]
   \<and> listeners (elements (destroy 0 demo) 1) = [ThemeChangeArrow 0]
   \<and> mediaListeners (destroy 0 demo) = [SystemThemeArrow 0]
   \<and> getTheme 0 (destroy 0 demo) = Some ''light''
   \<and> getTheme 0 (userSelects 1 ''dark'' (destroy 0 demo)) = Some ''dark''
   \<and> calls (userSelects 1 ''dark'' (destroy 0 demo)) = calls demo @
       [DispatchEvent ''themeFontToggle:destroyed''
          \<lparr>theme = Some ''light'', font = Some ''system'', fontSize = Some ''medium''\<rparr>,
        SetItem ''theme-font-toggle-theme'' ''dark'',
        SetAttribute ''data-theme'' ''dark'',
        DispatchEvent ''themeFontToggle:themeChanged''
          \<lparr>theme = Some ''dark'', font = Some ''system'', fontSize = Some ''medium''\<rparr>]"
  by (simp add: userSelects_def changeEvent_def demo_destroyed_elements demo_elements
      demo_instance demo_world_fields getter_defs accepts_def)

section \<open>Properties of the content script\<close>

lemma cs_apply_attributes [simp]:
  "page_attributes (cs_applyTheme t p) = (page_attributes p)(''data-theme'' \<mapsto> t)"
  "page_attributes (cs_applyFont f p) = (page_attributes p)(''data-font'' \<mapsto> f)"
  "page_attributes (cs_applyFontSize fs p) = (page_attributes p)(''data-font-size'' \<mapsto> fs)"
  by (simp_all add: cs_applyTheme_def cs_applyFont_def cs_applyFontSize_def
      injectThemeStyles_def Let_def)

lemma when_truthy_attributes:
  "page_attributes (when_truthy cs_applyTheme x p) =
     (case x of None \<Rightarrow> page_attributes p
      | Some s \<Rightarrow> if s = [] then page_attributes p
                  else (page_attributes p)(''data-theme'' \<mapsto> s))"
  "page_attributes (when_truthy cs_applyFont x p) =
     (case x of None \<Rightarrow> page_attributes p
      | Some s \<Rightarrow> if s = [] then page_attributes p
                  else (page_attributes p)(''data-font'' \<mapsto> s))"
  "page_attributes (when_truthy cs_applyFontSize x p) =
     (case x of None \<Rightarrow> page_attributes p
      | Some s \<Rightarrow> if s = [] then page_attributes p
                  else (page_attributes p)(''data-font-size'' \<mapsto> s))"
  by (cases x; simp)+

text \<open>
  C5 (as amended). A message whose action is none of \<open>setTheme\<close>, \<open>setFont\<close>,
  \<open>setFontSize\<close>, \<open>applySettings\<close> (or that has no action) is answered with
  \<open>{success: false, error: 'Unknown action'}\<close> and leaves the page as it was; a message
  with one of the four actions is answered with \<open>{success: true}\<close>.
\<close>

theorem onMessage_acknowledgment:
  "(action m \<notin> {Some ''setTheme'', Some ''setFont'', Some ''setFontSize'',
                  Some ''applySettings''} \<longrightarrow>
      onMessage m p = (\<lparr>success = False, error = Some ''Unknown action''\<rparr>, p))
   \<and> (action m \<in> {Some ''setTheme'', Some ''setFont'', Some ''setFontSize'',
                    Some ''applySettings''} \<longrightarrow>
      fst (onMessage m p) = \<lparr>success = True, error = None\<rparr>)"
  by (auto simp add: onMessage_def)

theorem onMessage_acknowledgment_witness:
  "action bogus_message = Some ''toggleTheme''
   \<and> onMessage bogus_message demo_page_context =
       (\<lparr>success = False, error = Some ''Unknown action''\<rparr>, demo_page_context)
   \<and> action theme_message = Some ''setTheme''
   \<and> fst (onMessage theme_message demo_page_context) = \<lparr>success = True, error = None\<rparr>"
  using onMessage_acknowledgment [of bogus_message demo_page_context]
    onMessage_acknowledgment [of theme_message demo_page_context]
  by (simp add: bogus_message_def theme_message_def)

text \<open>The error text of the answer starts with a capital letter.\<close>

theorem onMessage_unknown_action_counterexample:
  "action bogus_message = Some ''toggleTheme''
   \<and> fst (onMessage bogus_message demo_page_context)
       \<noteq> \<lparr>success = False, error = Some ''unknown action''\<rparr>"
  by (simp add: bogus_message_def onMessage_def)

text \<open>
  C6 (as amended). For an \<open>applySettings\<close> message with a settings object, each field
  that holds a non-empty string becomes the value of that dimension's attribute, and each
  field that is absent or holds the empty string leaves that dimension's attribute as it
  was; the answer is \<open>{success: true}\<close>. In particular settings with only
  \<open>theme: 'dark'\<close> change the theme attribute and leave font and font size alone.
\<close>

theorem applySettings_message_fields:
  assumes "action m = Some ''applySettings''" and "msg_settings m = Some st"
  shows "(\<forall>t. ps_theme st = Some t \<and> t \<noteq> [] \<longrightarrow>
            page_attributes (snd (onMessage m p)) ''data-theme'' = Some t)
       \<and> (ps_theme st = None \<or> ps_theme st = Some [] \<longrightarrow>
            page_attributes (snd (onMessage m p)) ''data-theme'' = page_attributes p ''data-theme'')
       \<and> (\<forall>f. ps_font st = Some f \<and> f \<noteq> [] \<longrightarrow>
            page_attributes (snd (onMessage m p)) ''data-font'' = Some f)
       \<and> (ps_font st = None \<or> ps_font st = Some [] \<longrightarrow>
            page_attributes (snd (onMessage m p)) ''data-font'' = page_attributes p ''data-font'')
       \<and> (\<forall>s. ps_fontSize st = Some s \<and> s \<noteq> [] \<longrightarrow>
            page_attributes (snd (onMessage m p)) ''data-font-size'' = Some s)
       \<and> (ps_fontSize st = None \<or> ps_fontSize st = Some [] \<longrightarrow>
            page_attributes (snd (onMessage m p)) ''data-font-size''
              = page_attributes p ''data-font-size'')
       \<and> fst (onMessage m p) = \<lparr>success = True, error = None\<rparr>"
  using assms
  by (auto simp add: onMessage_def when_truthy_attributes split: option.splits)

theorem applySettings_message_fields_witness:
  "page_attributes (snd (onMessage (settings_message
       \<lparr>ps_theme = Some ''dark'', ps_font = None, ps_fontSize = None\<rparr>) demo_page_context))
     = [''data-theme'' \<mapsto> ''dark'', ''data-font'' \<mapsto> ''serif'']
   \<and> page_attributes demo_page_context = [''data-theme'' \<mapsto> ''light'', ''data-font'' \<mapsto> ''serif'']
   \<and> page_attributes (snd (onMessage (settings_message
       \<lparr>ps_theme = Some [], ps_font = Some ''cursive'', ps_fontSize = Some ''large''\<rparr>)
       demo_page_context)) ''data-theme'' = Some ''light''
   \<and> page_attributes (snd (onMessage (settings_message
       \<lparr>ps_theme = Some [], ps_font = Some ''cursive'', ps_fontSize = Some ''large''\<rparr>)
       demo_page_context)) ''data-font'' = Some ''cursive''
   \<and> page_attributes (snd (onMessage (settings_message
       \<lparr>ps_theme = Some [], ps_font = Some ''cursive'', ps_fontSize = Some ''large''\<rparr>)
       demo_page_context)) ''data-font-size'' = Some ''large''"
  using applySettings_message_fields [of "settings_message
       \<lparr>ps_theme = Some ''dark'', ps_font = None, ps_fontSize = None\<rparr>"
       "\<lparr>ps_theme = Some ''dark'', ps_font = None, ps_fontSize = None\<rparr>" demo_page_context]
    applySettings_message_fields [of "settings_message
       \<lparr>ps_theme = Some [], ps_font = Some ''cursive'', ps_fontSize = Some ''large''\<rparr>"
       "\<lparr>ps_theme = Some [], ps_font = Some ''cursive'', ps_fontSize = Some ''large''\<rparr>"
       demo_page_context]
  by (simp add: settings_message_def demo_page_context_def onMessage_def fun_eq_iff)

text \<open>A theme field that is present but empty is not applied: the attribute keeps its value.\<close>

theorem applySettings_empty_field_counterexample:
  "ps_theme \<lparr>ps_theme = Some [], ps_font = None, ps_fontSize = None\<rparr> = Some []
   \<and> page_attributes demo_page_context ''data-theme'' = Some ''light''
   \<and> page_attributes (snd (onMessage (settings_message
        \<lparr>ps_theme = Some [], ps_font = None, ps_fontSize = None\<rparr>) demo_page_context))
        ''data-theme'' \<noteq> Some []"
  by (simp add: settings_message_def demo_page_context_def onMessage_def)

end
